theory Spec2Isabelle
  imports Complex_Main
begin

section \<open>The opcodes of clang\_opcodes.cpp\<close>

text \<open>
  The file \<^verbatim>\<open>clang_opcodes.cpp\<close> defines two Csound opcodes: \<^verbatim>\<open>ClangCompile\<close>, whose
  \<^verbatim>\<open>init\<close> compiles a piece of source text, adds the module to the process-wide JIT compiler
  and calls the module's entry point, and \<^verbatim>\<open>ClangInvoke\<close>, whose \<^verbatim>\<open>init\<close>, \<^verbatim>\<open>kontrol\<close> and
  \<^verbatim>\<open>noteoff\<close> drive an object made by a factory function of a compiled module.

  Clang, LLVM, the operating system and the compiled code itself are outside the file. They
  enter the model as the fields of a record \<open>world\<close>; the opcodes are functions of that
  record and of the state of the process (the three statics of the file, the libraries
  loaded so far, and a list of the calls made into LLVM and into compiled code).

  Left out: the diagnostic messages, which are printed and read by nothing; failures of
  the file system while the temporary source file is written; and the overflow of the
  \<^verbatim>\<open>int\<close> counter of \<^verbatim>\<open>dylib_name\<close>, which takes more JIT compilers than a process makes.
\<close>

subsection \<open>Status values and outcomes\<close>

text \<open>
  \<^verbatim>\<open>OK\<close> and \<^verbatim>\<open>NOTOK\<close> are macros of Csound's headers (\<^verbatim>\<open>#define OK (0)\<close>,
  \<^verbatim>\<open>#define NOTOK (-1)\<close>), which the file includes through \<^verbatim>\<open>OpcodeBase.hpp\<close>.
\<close>

definition OK :: int where
  "OK = 0"

definition NOTOK :: int where
  "NOTOK = - 1"

text \<open>
  An opcode function either returns a status to Csound, or the process is ended by
  \<^verbatim>\<open>llvm::ExitOnError\<close> (which prints the banner and calls \<^verbatim>\<open>exit\<close> with the code \<open>1\<close> of
  its default exit code mapper), or the function dereferences a null pointer or calls
  through a pointer of the wrong type, which C++ leaves undefined.
\<close>

datatype status = Returned int | Exited int | Undefined

subsection \<open>Data\<close>

type_synonym MYFLT = real

text \<open>The host context \<^verbatim>\<open>CSOUND *\<close> is an opaque address.\<close>

type_synonym CSOUND = nat

text \<open>
  \<^verbatim>\<open>ClangInvokable\<close> is declared in \<^verbatim>\<open>clang_invokable.hpp\<close>; its implementations are
  compiled at run time. The file calls three virtual functions of it:
  \<^verbatim>\<open>init(csound, &opds, outputs, inputs)\<close>, \<^verbatim>\<open>kontrol(csound, outputs, inputs)\<close> and
  \<^verbatim>\<open>noteoff(csound)\<close>, each returning \<^verbatim>\<open>int\<close>. An object is its data members and its three
  functions; the first two may write the output cells and the members, so they return the
  new outputs and the new members with the status.
\<close>

type_synonym members = "MYFLT list"

record ClangInvokable =
  members :: members
  invokable_init :: "members \<Rightarrow> CSOUND \<Rightarrow> MYFLT list \<Rightarrow> MYFLT list \<Rightarrow> int \<times> MYFLT list \<times> members"
  invokable_kontrol :: "members \<Rightarrow> CSOUND \<Rightarrow> MYFLT list \<Rightarrow> MYFLT list \<Rightarrow> int \<times> MYFLT list \<times> members"
  invokable_noteoff :: "members \<Rightarrow> CSOUND \<Rightarrow> int"

text \<open>
  What a resolved address points to. \<^verbatim>\<open>ClangCompile::init\<close> casts the address to
  \<^verbatim>\<open>int (*)(CSOUND *)\<close>, \<^verbatim>\<open>ClangInvoke::init\<close> casts it to \<^verbatim>\<open>ClangInvokable *(*)()\<close>; a
  factory may return a null pointer.
\<close>

datatype symbol =
    EntryFn "CSOUND \<Rightarrow> int"
  | FactoryFn "ClangInvokable option"
  | OtherSym

text \<open>An \<^verbatim>\<open>llvm::Module\<close>, as far as the JIT sees it: the symbols it defines.\<close>

type_synonym Module = "(string \<times> symbol) list"

text \<open>A job of a \<^verbatim>\<open>driver::Compilation\<close>: a \<^verbatim>\<open>driver::Command\<close> with its creator's name and
  its arguments, or a job of another class.\<close>

datatype Job = Command (creator_name: string) (arguments: "string list") | OtherJob

fun is_Command :: "Job \<Rightarrow> bool" where
  "is_Command (Command c a) = True"
| "is_Command OtherJob = False"

datatype jit_error =
    HostNotDetected
  | NoTargetMachine
  | NoProcessSymbols
  | DuplicateDefinition string
  | SymbolsNotFound string

text \<open>The fields of \<^verbatim>\<open>llvm::orc::JITCompiler\<close> that the opcodes can observe: the name of its
  dylib and the symbols defined in that dylib by the modules added so far.\<close>

record JITCompiler =
  name :: string
  main_jit_dylib :: "(string \<times> symbol) list"

text \<open>The calls the opcodes make into LLVM and into compiled code, in order.\<close>

datatype event =
    LoadLibraryPermanently string
  | JITCompiler_new string
  | addModule_done "string list"
  | csound_main_call string CSOUND int
  | invokable_factory_call string
  | ClangInvokable_init int
  | ClangInvokable_kontrol int
  | ClangInvokable_noteoff int

text \<open>
  The state of the process: \<^verbatim>\<open>static bool enabled\<close> of \<^verbatim>\<open>clang_diagnostics_enabled\<close>,
  \<^verbatim>\<open>static int dylib_count\<close> of \<^verbatim>\<open>dylib_name\<close>, the file's
  \<^verbatim>\<open>static std::shared_ptr<JITCompiler> jit_compiler\<close> (\<open>None\<close> is the null pointer), the
  libraries loaded permanently, and the calls made so far.
\<close>

record process =
  clang_diagnostics_enabled :: bool
  dylib_count :: int
  jit_compiler :: "JITCompiler option"
  loaded_libraries :: "string list"
  calls :: "event list"

text \<open>
  What the file takes from outside: the environment variable \<^verbatim>\<open>TMPDIR\<close> and \<^verbatim>\<open>mkstemps\<close>
  (the file name made from the template); the path of the executable; the triple handed to
  the driver (the process triple, with ELF for COFF, lines 283-291); the driver's
  \<^verbatim>\<open>BuildCompilation\<close> on the executable path, the triple and the arguments, \<open>None\<close> for a
  null pointer; whether the compiler instance has diagnostics; \<^verbatim>\<open>ExecuteAction\<close> with
  \<^verbatim>\<open>takeModule\<close> on the command's arguments, the source path and the source text, \<open>None\<close>
  when the action fails and \<open>Some None\<close> when it gives no module; the three steps of
  \<^verbatim>\<open>JITCompiler::Create\<close> that can fail; and the symbols the process and the libraries
  loaded into it export.
\<close>

record world =
  getenv_TMPDIR :: "string option"
  mkstemps :: "string \<Rightarrow> string"
  GetExecutablePath :: "string \<Rightarrow> string"
  target_triple :: string
  BuildCompilation :: "string \<Rightarrow> string \<Rightarrow> string list \<Rightarrow> Job list option"
  hasDiagnostics :: bool
  ExecuteAction :: "string list \<Rightarrow> string \<Rightarrow> string \<Rightarrow> Module option option"
  detectHost :: bool
  createTargetMachine :: bool
  GetForCurrentProcess :: bool
  process_symbols :: "string list \<Rightarrow> string \<Rightarrow> symbol option"

text \<open>The fields of the two opcode classes.\<close>

record ClangCompile =
  i_result :: MYFLT
  S_entry_point :: string
  S_source_code :: string
  S_compiler_options :: string
  S_link_libraries :: string

record ClangInvoke =
  outputs :: "MYFLT list"
  S_invokable_factory :: string
  i_thread :: MYFLT
  inputs :: "MYFLT list"
  thread :: int
  clang_invokable :: "ClangInvokable option"

subsection \<open>tokenize\<close>

text \<open>
  \<^verbatim>\<open>tokenize\<close> (lines 202-211): skip delimiters (\<^verbatim>\<open>find_first_not_of\<close>), stop at the end of
  the string, otherwise cut the token at the next delimiter (\<^verbatim>\<open>find\<close>, \<^verbatim>\<open>substr\<close>) and go
  on behind it. Both callers pass an empty vector; the result is the tokens pushed.
\<close>

function tokenize :: "string \<Rightarrow> char \<Rightarrow> string list" where
  "tokenize str delimiter =
     (case dropWhile (\<lambda>c. c = delimiter) str of
        [] \<Rightarrow> []
      | c # r \<Rightarrow> takeWhile (\<lambda>x. x \<noteq> delimiter) (c # r)
                 # tokenize (dropWhile (\<lambda>x. x \<noteq> delimiter) (c # r)) delimiter)"
  by pat_completeness auto
termination
proof (relation "measure (\<lambda>(s, d). length s)")
  show "wf (measure (\<lambda>(s, d). length s))" by simp
next
  fix str :: string and delimiter c r
  assume h: "dropWhile (\<lambda>c. c = delimiter) str = c # r"
  then have "c \<noteq> delimiter"
    by (simp add: dropWhile_eq_Cons_conv)
  then have "length (dropWhile (\<lambda>x. x \<noteq> delimiter) (c # r)) \<le> length r"
    by (simp add: length_dropWhile_le)
  moreover have "length (c # r) \<le> length str"
    using length_dropWhile_le [of "\<lambda>c. c = delimiter" str] h by simp
  ultimately show "((dropWhile (\<lambda>x. x \<noteq> delimiter) (c # r), delimiter), (str, delimiter))
      \<in> measure (\<lambda>(s, d). length s)"
    by simp
qed

declare tokenize.simps [simp del]

subsection \<open>dylib\_name and the JIT compiler\<close>

text \<open>The \<^verbatim>\<open>%d\<close> of \<^verbatim>\<open>snprintf\<close>: a decimal numeral, with a minus sign below zero.\<close>

definition digit :: "nat \<Rightarrow> char" where
  "digit n = ''0123456789'' ! n"

fun decimal :: "nat \<Rightarrow> string" where
  "decimal n =
     (if n < 10 then [digit n]
      else decimal (n div 10) @ [digit (n mod 10)])"

declare decimal.simps [simp del]

definition printf_d :: "int \<Rightarrow> string" where
  "printf_d i = (if i < 0 then CHR ''-'' # decimal (nat (- i)) else decimal (nat i))"

text \<open>\<^verbatim>\<open>dylib_name\<close> (lines 108-114): count up, print into a buffer of 256 bytes.\<close>

definition dylib_name :: "process \<Rightarrow> string \<times> process" where
  "dylib_name p =
     (let dylib_count' = dylib_count p + 1;
          buffer = take 255 (''<main-'' @ printf_d dylib_count' @ ''>'')
      in (buffer, p\<lparr>dylib_count := dylib_count'\<rparr>))"

text \<open>
  \<^verbatim>\<open>JITCompiler::Create\<close> (lines 155-171) with the constructor (lines 136-144): three checks
  that can fail, then \<^verbatim>\<open>new JITCompiler\<close>, whose member initialiser calls \<^verbatim>\<open>dylib_name\<close>
  and creates an empty dylib under that name. The \<^verbatim>\<open>cantFail\<close> of the constructor (line 139),
  which aborts when the process control cannot be made, is left out.
\<close>

definition JITCompiler_Create :: "world \<Rightarrow> process \<Rightarrow> jit_error + (JITCompiler \<times> process)" where
  "JITCompiler_Create w p =
     (if \<not> detectHost w then Inl HostNotDetected
      else if \<not> createTargetMachine w then Inl NoTargetMachine
      else if \<not> GetForCurrentProcess w then Inl NoProcessSymbols
      else (let (nm, p') = dylib_name p
            in Inr (\<lparr>name = nm, main_jit_dylib = []\<rparr>,
                    p'\<lparr>calls := calls p' @ [JITCompiler_new nm]\<rparr>)))"

text \<open>
  Modelled from the spec: the ORC layers behind \<^verbatim>\<open>JITCompiler::addModule\<close> (line 178:
  \<^verbatim>\<open>IRCompileLayer::add\<close> on the one dylib) are LLVM's. Section 4.3: "transfers ownership of
  a CompiledModule into the session's single logical namespace ... Fails if the module
  conflicts with an already-registered symbol name (duplicate symbol)". A failure of
  the link step itself is left out.
\<close>

definition addModule :: "JITCompiler \<Rightarrow> Module \<Rightarrow> jit_error + JITCompiler" where
  "addModule jit mdl =
     (case filter (\<lambda>s. s \<in> set (map fst (main_jit_dylib jit))) (map fst mdl) of
        [] \<Rightarrow> Inr (jit\<lparr>main_jit_dylib := main_jit_dylib jit @ mdl\<rparr>)
      | s # _ \<Rightarrow> Inl (DuplicateDefinition s))"

text \<open>
  Modelled from the spec: the lookup behind \<^verbatim>\<open>JITCompiler::findSymbol\<close> (line 182) is
  LLVM's. Section 4.3: "performs a lookup ... Fails with a not-found error if no module
  defines the symbol"; the dylib's generator (line 142) makes the symbols of the process
  and of the libraries loaded into it (\<open>loaded\<close>) visible as well.
\<close>

definition findSymbol :: "world \<Rightarrow> string list \<Rightarrow> JITCompiler \<Rightarrow> string \<Rightarrow> jit_error + symbol" where
  "findSymbol w loaded jit nm =
     (case map_of (main_jit_dylib jit) nm of
        Some s \<Rightarrow> Inr s
      | None \<Rightarrow> (case process_symbols w loaded nm of
                   Some s \<Rightarrow> Inr s
                 | None \<Rightarrow> Inl (SymbolsNotFound nm)))"

text \<open>\<^verbatim>\<open>JITCompiler::getSymbolAddress\<close> (lines 184-191) passes the error or the address on.\<close>

definition getSymbolAddress ::
    "world \<Rightarrow> string list \<Rightarrow> JITCompiler \<Rightarrow> string \<Rightarrow> jit_error + symbol" where
  "getSymbolAddress w loaded jit nm =
     (case findSymbol w loaded jit nm of
        Inl e \<Rightarrow> Inl e
      | Inr s \<Rightarrow> Inr s)"

subsection \<open>ClangCompile::init\<close>

text \<open>The loop over the option tokens (lines 250-255): a token \<^verbatim>\<open>-v\<close> switches the
  diagnostics on, and every token becomes an argument.\<close>

fun options_loop :: "string list \<Rightarrow> bool \<times> string list \<Rightarrow> bool \<times> string list" where
  "options_loop [] (enabled, args) = (enabled, args)"
| "options_loop (t # ts) (enabled, args) =
     options_loop ts (if t = ''-v'' then True else enabled, args @ [t])"

text \<open>The loop over the libraries (lines 359-361); the result of each load is dropped.\<close>

fun load_libraries :: "string list \<Rightarrow> process \<Rightarrow> process" where
  "load_libraries [] p = p"
| "load_libraries (l # ls) p =
     load_libraries ls
       (p\<lparr>loaded_libraries := loaded_libraries p @ [l],
          calls := calls p @ [LoadLibraryPermanently l]\<rparr>)"

text \<open>
  The body of \<^verbatim>\<open>if(module)\<close> (lines 355-373) with the \<^verbatim>\<open>return OK\<close> that follows it (line
  375). Each \<^verbatim>\<open>exit_on_error\<close> ends the process when its argument holds an error. The
  entry point's return value is assigned to the local \<^verbatim>\<open>result\<close>, which is printed when
  diagnostics are on and not used otherwise.
\<close>

definition link_and_call ::
    "world \<Rightarrow> CSOUND \<Rightarrow> ClangCompile \<Rightarrow> Module \<Rightarrow> process \<Rightarrow> status \<times> process" where
  "link_and_call w csound self mdl p =
     (let link_libraries_list = tokenize (S_link_libraries self) CHR '' '';
          p1 = load_libraries link_libraries_list p
      in case (case jit_compiler p1 of
                 None \<Rightarrow>
                   (case JITCompiler_Create w p1 of
                      Inl e \<Rightarrow> Inl e
                    | Inr (jit, p2) \<Rightarrow> Inr (jit, p2\<lparr>jit_compiler := Some jit\<rparr>))
               | Some jit \<Rightarrow> Inr (jit, p1)) of
           Inl e \<Rightarrow> (Exited 1, p1)
         | Inr (jit, p2) \<Rightarrow>
             (case addModule jit mdl of
                Inl e \<Rightarrow> (Exited 1, p2)
              | Inr jit' \<Rightarrow>
                  (let p3 = p2\<lparr>jit_compiler := Some jit',
                                calls := calls p2 @ [addModule_done (map fst mdl)]\<rparr>
                   in case getSymbolAddress w (loaded_libraries p3) jit' (S_entry_point self) of
                        Inl e \<Rightarrow> (Exited 1, p3)
                      | Inr (EntryFn csound_main) \<Rightarrow>
                          (let result = csound_main csound
                           in (Returned OK,
                               p3\<lparr>calls := calls p3
                                    @ [csound_main_call (S_entry_point self) csound result]\<rparr>))
                      | Inr _ \<Rightarrow> (Undefined, p3))))"

text \<open>
  Lines 244-255: the diagnostics flag is cleared, the options are cut at blanks, and the
  loop runs over the tokens. The result is the flag and the arguments so far.
\<close>

definition parse_options :: "ClangCompile \<Rightarrow> bool \<times> string list" where
  "parse_options self =
     options_loop (tokenize (S_compiler_options self) CHR '' '') (False, [])"

text \<open>Lines 260-266: the path of the temporary source file, under \<^verbatim>\<open>TMPDIR\<close> or
  \<^verbatim>\<open>/tmp\<close>.\<close>

definition source_filepath :: "world \<Rightarrow> string" where
  "source_filepath w =
     (let temp_directory = (case getenv_TMPDIR w of None \<Rightarrow> ''/tmp'' | Some d \<Rightarrow> d)
      in mkstemps w (temp_directory @ ''/clang_opcode_XXXXXX.cpp''))"

text \<open>Lines 270-301: the arguments are completed and the driver builds its compilation;
  \<open>None\<close> is the null pointer.\<close>

definition compilation :: "world \<Rightarrow> ClangCompile \<Rightarrow> Job list option" where
  "compilation w self =
     (let args = snd (parse_options self) @ [''clang_opcode'', source_filepath w];
          executable_filepath = GetExecutablePath w (hd args)
      in BuildCompilation w executable_filepath (target_triple w) (args @ [''-fsyntax-only'']))"

text \<open>
  Lines 301-353, the front end: \<open>Inl\<close> is the status of an early \<^verbatim>\<open>return\<close>, \<open>Inr\<close> the
  module taken from the action, \<open>None\<close> when \<^verbatim>\<open>takeModule\<close> gives a null pointer. The
  temporary file carries the source text to the front end, so \<open>ExecuteAction\<close> gets the
  arguments of the one command, the path and the text.
\<close>

definition emit_llvm :: "world \<Rightarrow> ClangCompile \<Rightarrow> int + Module option" where
  "emit_llvm w self =
     (case compilation w self of
        None \<Rightarrow> Inl 0
      | Some compilation_jobs \<Rightarrow>
          if length compilation_jobs \<noteq> 1 \<or> \<not> is_Command (hd compilation_jobs)
          then Inl 1
          else if creator_name (hd compilation_jobs) \<noteq> ''clang''
          then Inl 1
          else if \<not> hasDiagnostics w
          then Inl 1
          else (case ExecuteAction w (arguments (hd compilation_jobs)) (source_filepath w)
                       (S_source_code self) of
                  None \<Rightarrow> Inl 1
                | Some module_ptr \<Rightarrow> Inr module_ptr))"

text \<open>
  \<^verbatim>\<open>ClangCompile::init\<close> (lines 242-376). \<^verbatim>\<open>strarg2name\<close> hands each string argument on.
  The output \<^verbatim>\<open>i_result\<close> is not assigned anywhere in the function.
\<close>

definition ClangCompile_init ::
    "world \<Rightarrow> CSOUND \<Rightarrow> process \<times> ClangCompile \<Rightarrow> status \<times> process \<times> ClangCompile" where
  "ClangCompile_init w csound ps =
     (let (p, self) = ps;
          p1 = p\<lparr>clang_diagnostics_enabled := fst (parse_options self)\<rparr>
      in case emit_llvm w self of
           Inl r \<Rightarrow> (Returned r, p1, self)
         | Inr None \<Rightarrow> (Returned OK, p1, self)
         | Inr (Some mdl) \<Rightarrow>
             (let (st, p2) = link_and_call w csound self mdl p1
              in (st, p2, self)))"

subsection \<open>ClangInvoke\<close>

text \<open>
  The conversion of \<^verbatim>\<open>thread = *i_thread\<close> (line 407), from \<^verbatim>\<open>MYFLT\<close> to the \<^verbatim>\<open>int\<close> field
  \<^verbatim>\<open>thread\<close> (line 402), an \<^verbatim>\<open>int\<close> of 32 bits: the fraction is dropped, and when what is left
  does not fit the \<^verbatim>\<open>int\<close> the conversion is undefined in C++, which is \<open>None\<close> here. A
  \<^verbatim>\<open>MYFLT\<close> is a real number here; values that are no numbers are not modelled.
\<close>

definition MYFLT_to_int :: "MYFLT \<Rightarrow> int option" where
  "MYFLT_to_int x =
     (let t = (if 0 \<le> x then \<lfloor>x\<rfloor> else \<lceil>x\<rceil>)
      in if - (2 ^ 31) \<le> t \<and> t < 2 ^ 31 then Some t else None)"

text \<open>\<^verbatim>\<open>ClangInvoke::init\<close> (lines 404-428).\<close>

definition ClangInvoke_init ::
    "world \<Rightarrow> CSOUND \<Rightarrow> process \<times> ClangInvoke \<Rightarrow> status \<times> process \<times> ClangInvoke" where
  "ClangInvoke_init w csound ps =
     (let (p, self0) = ps
      in case MYFLT_to_int (i_thread self0) of
           None \<Rightarrow> (Undefined, p, self0)
         | Some t \<Rightarrow>
             (let self = self0\<lparr>thread := t\<rparr>
              in if \<not> (thread self = 1 \<or> thread self = 2 \<or> thread self = 3)
                 then (Returned NOTOK, p, self)
                 else (case jit_compiler p of
                         None \<Rightarrow> (Undefined, p, self)
                       | Some jit \<Rightarrow>
                           (case getSymbolAddress w (loaded_libraries p) jit
                                   (S_invokable_factory self) of
                              Inl e \<Rightarrow> (Exited 1, p, self)
                            | Inr (FactoryFn instance) \<Rightarrow>
                                (let p1 = p\<lparr>calls := calls p
                                       @ [invokable_factory_call (S_invokable_factory self)]\<rparr>;
                                     self1 = self\<lparr>clang_invokable := instance\<rparr>
                                 in if thread self1 = 2 then (Returned OK, p1, self1)
                                    else (case clang_invokable self1 of
                                            None \<Rightarrow> (Undefined, p1, self1)
                                          | Some obj \<Rightarrow>
                                              (let (result, outs, m) =
                                                     invokable_init obj (members obj) csound
                                                       (outputs self1) (inputs self1)
                                               in (Returned result,
                                                   p1\<lparr>calls := calls p1
                                                        @ [ClangInvokable_init result]\<rparr>,
                                                   self1\<lparr>outputs := outs,
                                                         clang_invokable :=
                                                           Some (obj\<lparr>members := m\<rparr>)\<rparr>))))
                            | Inr _ \<Rightarrow> (Undefined, p, self)))))"

text \<open>\<^verbatim>\<open>ClangInvoke::kontrol\<close> (lines 429-438).\<close>

definition ClangInvoke_kontrol ::
    "CSOUND \<Rightarrow> process \<times> ClangInvoke \<Rightarrow> status \<times> process \<times> ClangInvoke" where
  "ClangInvoke_kontrol csound ps =
     (let (p, self) = ps
      in if thread self = 1 then (Returned OK, p, self)
         else (case clang_invokable self of
                 None \<Rightarrow> (Undefined, p, self)
               | Some obj \<Rightarrow>
                   (let (result, outs, m) =
                          invokable_kontrol obj (members obj) csound (outputs self) (inputs self)
                    in (Returned result,
                        p\<lparr>calls := calls p @ [ClangInvokable_kontrol result]\<rparr>,
                        self\<lparr>outputs := outs,
                             clang_invokable := Some (obj\<lparr>members := m\<rparr>)\<rparr>))))"

text \<open>\<^verbatim>\<open>ClangInvoke::noteoff\<close> (lines 439-446).\<close>

definition ClangInvoke_noteoff ::
    "CSOUND \<Rightarrow> process \<times> ClangInvoke \<Rightarrow> status \<times> process \<times> ClangInvoke" where
  "ClangInvoke_noteoff csound ps =
     (let (p, self) = ps
      in case clang_invokable self of
           None \<Rightarrow> (Undefined, p, self)
         | Some obj \<Rightarrow>
             (let result = invokable_noteoff obj (members obj) csound
              in (Returned result,
                  p\<lparr>calls := calls p @ [ClangInvokable_noteoff result]\<rparr>,
                  self\<lparr>clang_invokable := None\<rparr>)))"

subsection \<open>A process serving requests\<close>

text \<open>
  Csound starts the process with the statics at their initial values, keeps the opcode
  instances apart (here by a number), and calls the opcode functions one after the other.
  A request that does not return ends the run.
\<close>

definition process_start :: process where
  "process_start =
     \<lparr>clang_diagnostics_enabled = False, dylib_count = 0, jit_compiler = None,
      loaded_libraries = [], calls = []\<rparr>"

definition ClangInvoke_start :: ClangInvoke where
  "ClangInvoke_start =
     \<lparr>outputs = [], S_invokable_factory = [], i_thread = 0, inputs = [], thread = 0,
      clang_invokable = None\<rparr>"

datatype request =
    clang_compile ClangCompile
  | clang_invoke_init nat string MYFLT "MYFLT list"
  | clang_invoke_kontrol nat "MYFLT list"
  | clang_invoke_noteoff nat

type_synonym system = "process \<times> (nat \<Rightarrow> ClangInvoke)"

fun step :: "world \<Rightarrow> CSOUND \<Rightarrow> request \<Rightarrow> system \<Rightarrow> status \<times> system" where
  "step w csound (clang_compile self) (p, ops) =
     (let (st, p', self') = ClangCompile_init w csound (p, self) in (st, p', ops))"
| "step w csound (clang_invoke_init i factory thr ins) (p, ops) =
     (let (st, p', self') =
            ClangInvoke_init w csound
              (p, (ops i)\<lparr>S_invokable_factory := factory, i_thread := thr, inputs := ins\<rparr>)
      in (st, p', ops(i := self')))"
| "step w csound (clang_invoke_kontrol i ins) (p, ops) =
     (let (st, p', self') = ClangInvoke_kontrol csound (p, (ops i)\<lparr>inputs := ins\<rparr>)
      in (st, p', ops(i := self')))"
| "step w csound (clang_invoke_noteoff i) (p, ops) =
     (let (st, p', self') = ClangInvoke_noteoff csound (p, ops i)
      in (st, p', ops(i := self')))"

text \<open>\<open>run\<close> gives the status of every request served and the state reached.\<close>

fun run :: "world \<Rightarrow> CSOUND \<Rightarrow> request list \<Rightarrow> system \<Rightarrow> status list \<times> system" where
  "run w csound [] s = ([], s)"
| "run w csound (r # rs) s =
     (case step w csound r s of
        (Returned st, s') \<Rightarrow>
          (let (sts, s'') = run w csound rs s' in (Returned st # sts, s''))
      | (st, s') \<Rightarrow> ([st], s'))"

text \<open>
  \<^verbatim>\<open>csoundModuleDestroy_clang_opcodes\<close> (lines 479-487), which Csound calls when it unloads
  the opcodes: the pointer is reset, which destroys the JIT compiler it held, LLVM is shut
  down, and \<^verbatim>\<open>OK\<close> is returned. The counter of \<^verbatim>\<open>dylib_name\<close> stays.
\<close>

definition csoundModuleDestroy_clang_opcodes :: "process \<Rightarrow> int \<times> process" where
  "csoundModuleDestroy_clang_opcodes p = (OK, p\<lparr>jit_compiler := None\<rparr>)"

text \<open>
  The statics as a process started by Csound can have them: either no JIT compiler was
  constructed and the pointer is null, or one was, the pointer holds it, and its dylib has
  the first name \<^verbatim>\<open>dylib_name\<close> gives.
\<close>

definition one_session :: "process \<Rightarrow> bool" where
  "one_session p =
     (case jit_compiler p of
        None \<Rightarrow> dylib_count p = 0
      | Some jit \<Rightarrow> dylib_count p = 1 \<and> name jit = ''<main-1>'')"

subsection \<open>Example inputs\<close>

text \<open>
  A world for examples: the driver plans one \<^verbatim>\<open>clang\<close> command unless an option is
  \<^verbatim>\<open>-bogus\<close>, where it plans none, and the front end knows two source texts. The first
  defines the entry point \<^verbatim>\<open>main_a\<close>, which returns 42; the second defines the entry point
  \<^verbatim>\<open>main_b\<close> and the factory \<^verbatim>\<open>make_counter\<close> of an object that counts its calls into its
  first output.
\<close>

definition source_a :: string where
  "source_a = ''int main_a(CSOUND *csound) { return 42; }''"

definition source_b :: string where
  "source_b = ''struct Counter : ClangInvokable { /* ... */ };''"

definition counter :: ClangInvokable where
  "counter =
     \<lparr>members = [0],
      invokable_init = (\<lambda>m c outs ins. (0, [0], [0])),
      invokable_kontrol = (\<lambda>m c outs ins. (0, [hd m + 1], [hd m + 1])),
      invokable_noteoff = (\<lambda>m c. 7)\<rparr>"

definition example_world :: world where
  "example_world =
     \<lparr>getenv_TMPDIR = None,
      mkstemps = (\<lambda>t. ''/tmp/clang_opcode_q3Zk9a.cpp''),
      GetExecutablePath = (\<lambda>a. ''/usr/local/bin/csound''),
      target_triple = ''x86_64-unknown-linux-gnu'',
      BuildCompilation = (\<lambda>exe triple args.
         if ''-bogus'' \<in> set args then Some [] else Some [Command ''clang'' (''-cc1'' # args)]),
      hasDiagnostics = True,
      ExecuteAction = (\<lambda>args path src.
         if src = source_a then Some (Some [(''main_a'', EntryFn (\<lambda>c. 42))])
         else if src = source_b
         then Some (Some [(''main_b'', EntryFn (\<lambda>c. 0)),
                          (''make_counter'', FactoryFn (Some counter))])
         else None),
      detectHost = True,
      createTargetMachine = True,
      GetForCurrentProcess = True,
      process_symbols = (\<lambda>libs nm. None)\<rparr>"

definition unit_a :: "string \<Rightarrow> ClangCompile" where
  "unit_a opts =
     \<lparr>i_result = 0, S_entry_point = ''main_a'', S_source_code = source_a,
      S_compiler_options = opts, S_link_libraries = []\<rparr>"

definition unit_b :: ClangCompile where
  "unit_b =
     \<lparr>i_result = 0, S_entry_point = ''main_b'', S_source_code = source_b,
      S_compiler_options = [], S_link_libraries = []\<rparr>"

text \<open>The process after a first compile request for the first source text, and after a
  first compile request for the second.\<close>

definition process_a :: process where
  "process_a =
     \<lparr>clang_diagnostics_enabled = False, dylib_count = 1,
      jit_compiler =
        Some \<lparr>name = ''<main-1>'', main_jit_dylib = [(''main_a'', EntryFn (\<lambda>c. 42))]\<rparr>,
      loaded_libraries = [],
      calls = [JITCompiler_new ''<main-1>'', addModule_done [''main_a''],
               csound_main_call ''main_a'' 5 42]\<rparr>"

definition process_b :: process where
  "process_b =
     \<lparr>clang_diagnostics_enabled = False, dylib_count = 1,
      jit_compiler =
        Some \<lparr>name = ''<main-1>'',
              main_jit_dylib = [(''main_b'', EntryFn (\<lambda>c. 0)),
                                (''make_counter'', FactoryFn (Some counter))]\<rparr>,
      loaded_libraries = [],
      calls = [JITCompiler_new ''<main-1>'', addModule_done [''main_b'', ''make_counter''],
               csound_main_call ''main_b'' 5 0]\<rparr>"

text \<open>An opcode of \<^verbatim>\<open>clang_invoke\<close> as Csound hands it to \<^verbatim>\<open>init\<close>, asking for the counting
  object in a given mode, and one that holds the object already.\<close>

definition invoke_counter :: "MYFLT \<Rightarrow> ClangInvoke" where
  "invoke_counter thr =
     ClangInvoke_start\<lparr>S_invokable_factory := ''make_counter'', i_thread := thr\<rparr>"

definition counting :: "int \<Rightarrow> ClangInvoke" where
  "counting thr = ClangInvoke_start\<lparr>thread := thr, clang_invokable := Some counter\<rparr>"

section \<open>The examples evaluated\<close>

lemma tokenize_Nil: "tokenize [] d = []"
  by (simp add: tokenize.simps)

lemma printf_d_1: "printf_d 1 = ''1''"
  by (simp add: printf_d_def decimal.simps digit_def)

lemma example_world_host:
  "detectHost example_world" "createTargetMachine example_world"
  "GetForCurrentProcess example_world" "process_symbols example_world libs nm = None"
  by (simp_all add: example_world_def)

lemma unit_a_fields:
  "S_entry_point (unit_a opts) = ''main_a''" "S_source_code (unit_a opts) = source_a"
  "S_compiler_options (unit_a opts) = opts" "S_link_libraries (unit_a opts) = []"
  by (simp_all add: unit_a_def)

lemma unit_b_fields:
  "S_entry_point unit_b = ''main_b''" "S_source_code unit_b = source_b"
  "S_compiler_options unit_b = []" "S_link_libraries unit_b = []"
  by (simp_all add: unit_b_def)

lemma source_b_neq_a: "source_b \<noteq> source_a"
  by (simp add: source_a_def source_b_def)

lemma emit_a:
  "emit_llvm example_world (unit_a []) = Inr (Some [(''main_a'', EntryFn (\<lambda>c. 42))])"
  by (simp add: emit_llvm_def compilation_def parse_options_def tokenize_Nil source_filepath_def
      example_world_def unit_a_def)

lemma emit_b:
  "emit_llvm example_world unit_b
     = Inr (Some [(''main_b'', EntryFn (\<lambda>c. 0)), (''make_counter'', FactoryFn (Some counter))])"
  by (simp add: emit_llvm_def compilation_def parse_options_def tokenize_Nil source_filepath_def
      example_world_def unit_b_def source_b_neq_a)

lemma compile_a_start:
  "ClangCompile_init example_world 5 (process_start, unit_a [])
     = (Returned OK, process_a, unit_a [])"
  by (simp add: ClangCompile_init_def emit_a parse_options_def tokenize_Nil link_and_call_def
      JITCompiler_Create_def dylib_name_def printf_d_1 addModule_def getSymbolAddress_def
      findSymbol_def process_start_def process_a_def unit_a_fields example_world_host)

lemma compile_b_start:
  "ClangCompile_init example_world 5 (process_start, unit_b) = (Returned OK, process_b, unit_b)"
  by (simp add: ClangCompile_init_def emit_b parse_options_def tokenize_Nil link_and_call_def
      JITCompiler_Create_def dylib_name_def printf_d_1 addModule_def getSymbolAddress_def
      findSymbol_def process_start_def process_b_def unit_b_fields example_world_host)

lemma compile_a_again:
  "ClangCompile_init example_world 5 (process_a, unit_a []) = (Exited 1, process_a, unit_a [])"
  by (simp add: ClangCompile_init_def emit_a parse_options_def tokenize_Nil link_and_call_def
      addModule_def process_a_def unit_a_fields)

lemma make_counter_b:
  "getSymbolAddress example_world (loaded_libraries process_b)
     \<lparr>name = ''<main-1>'',
      main_jit_dylib = [(''main_b'', EntryFn (\<lambda>c. 0)),
                        (''make_counter'', FactoryFn (Some counter))]\<rparr> ''make_counter''
     = Inr (FactoryFn (Some counter))"
  by (simp add: getSymbolAddress_def findSymbol_def)

lemma invoke_counter_fields:
  "S_invokable_factory (invoke_counter thr) = ''make_counter''"
  "i_thread (invoke_counter thr) = thr" "outputs (invoke_counter thr) = []"
  "inputs (invoke_counter thr) = []" "clang_invokable (invoke_counter thr) = None"
  by (simp_all add: invoke_counter_def ClangInvoke_start_def)

section \<open>Properties of ClangInvoke\<close>

lemma MYFLT_to_int_numerals:
  "MYFLT_to_int 0 = Some 0" "MYFLT_to_int 1 = Some 1" "MYFLT_to_int 2 = Some 2"
  "MYFLT_to_int 3 = Some 3"
  by (simp_all add: MYFLT_to_int_def)

lemma ClangInvoke_kontrol_thread_1:
  "thread self = 1 \<Longrightarrow> ClangInvoke_kontrol csound (p, self) = (Returned OK, p, self)"
  by (simp add: ClangInvoke_kontrol_def)

lemma ClangInvoke_init_thread:
  "ClangInvoke_init w csound (p, self) = (Returned r, p', self') \<Longrightarrow>
   MYFLT_to_int (i_thread self) = Some (thread self')"
  by (auto simp add: ClangInvoke_init_def Let_def
      split: if_splits option.splits sum.splits symbol.splits prod.splits)

lemma ClangInvoke_init_unconvertible:
  "MYFLT_to_int (i_thread self) = None \<Longrightarrow>
   ClangInvoke_init w csound (p, self) = (Undefined, p, self)"
  by (simp add: ClangInvoke_init_def)

text \<open>
  C6, as amended. The execution mode arrives as a \<^verbatim>\<open>MYFLT\<close> and \<^verbatim>\<open>init\<close> tests the \<^verbatim>\<open>int\<close> it
  converts to. An invoke-factory request whose mode converts to an \<^verbatim>\<open>int\<close> other than 1, 2
  and 3 fails at once: \<^verbatim>\<open>init\<close> returns \<^verbatim>\<open>NOTOK\<close>, which is not \<^verbatim>\<open>OK\<close>; the process is as
  before, so neither the factory nor the object's setup was called; and the opcode holds
  the instance pointer it held before, so no instance was made. On an opcode that held no
  object, a later \<^verbatim>\<open>kontrol\<close> or \<^verbatim>\<open>noteoff\<close> finds none either and calls no phase of any object.
\<close>

theorem invalid_thread_rejected:
  assumes "MYFLT_to_int (i_thread self) = Some m" and "m \<notin> {1, 2, 3}"
  shows "ClangInvoke_init w csound (p, self) = (Returned NOTOK, p, self\<lparr>thread := m\<rparr>)
         \<and> NOTOK \<noteq> OK
         \<and> clang_invokable (self\<lparr>thread := m\<rparr>) = clang_invokable self
         \<and> (clang_invokable self = None \<longrightarrow>
              calls (fst (snd (ClangInvoke_kontrol csound (p, self\<lparr>thread := m\<rparr>)))) = calls p
              \<and> calls (fst (snd (ClangInvoke_noteoff csound (p, self\<lparr>thread := m\<rparr>)))) = calls p)"
  using assms
  by (simp add: ClangInvoke_init_def ClangInvoke_kontrol_def ClangInvoke_noteoff_def Let_def
      NOTOK_def OK_def)

theorem invalid_thread_rejected_witness:
  "ClangInvoke_init example_world 5 (process_start, ClangInvoke_start\<lparr>i_thread := 0\<rparr>)
     = (Returned (- 1), process_start, ClangInvoke_start\<lparr>i_thread := 0\<rparr>)
   \<and> calls (fst (snd (ClangInvoke_kontrol 5 (process_start, ClangInvoke_start\<lparr>i_thread := 0\<rparr>))))
       = []
   \<and> ClangInvoke_init example_world 5 (process_b, invoke_counter (9 / 2))
       = (Returned (- 1), process_b, (invoke_counter (9 / 2))\<lparr>thread := 4\<rparr>)"
proof -
  have h1: "MYFLT_to_int (i_thread (ClangInvoke_start\<lparr>i_thread := 0\<rparr>)) = Some 0"
    by (simp add: MYFLT_to_int_numerals)
  have h2: "(0::int) \<notin> {1, 2, 3}"
    by simp
  have h3: "clang_invokable (ClangInvoke_start\<lparr>i_thread := 0\<rparr>) = None"
    by (simp add: ClangInvoke_start_def)
  have a: "ClangInvoke_init example_world 5 (process_start, ClangInvoke_start\<lparr>i_thread := 0\<rparr>)
     = (Returned (- 1), process_start, ClangInvoke_start\<lparr>i_thread := 0\<rparr>)
   \<and> calls (fst (snd (ClangInvoke_kontrol 5 (process_start, ClangInvoke_start\<lparr>i_thread := 0\<rparr>))))
       = []"
    using invalid_thread_rejected [OF h1 h2, of example_world 5 process_start] h3
    by (simp add: NOTOK_def ClangInvoke_start_def process_start_def)
  have k1: "MYFLT_to_int (i_thread (invoke_counter (9 / 2))) = Some 4"
    by (simp add: MYFLT_to_int_def invoke_counter_fields)
  have k2: "(4::int) \<notin> {1, 2, 3}"
    by simp
  have b: "ClangInvoke_init example_world 5 (process_b, invoke_counter (9 / 2))
       = (Returned (- 1), process_b, (invoke_counter (9 / 2))\<lparr>thread := 4\<rparr>)"
    using invalid_thread_rejected [OF k1 k2, of example_world 5 process_b]
    by (simp add: NOTOK_def)
  show ?thesis
    using a b by simp
qed

text \<open>
  As the spec words it the claim fails: the mode 1.9 is none of 1, 2 and 3, and \<^verbatim>\<open>init\<close>
  converts it to 1, calls the factory and the object's setup, and returns \<^verbatim>\<open>OK\<close> with the
  object in the opcode.
\<close>

theorem fractional_thread_accepted_counterexample:
  "(19 / 10 :: MYFLT) \<notin> {1, 2, 3}
   \<and> fst (ClangInvoke_init example_world 5 (process_b, invoke_counter (19 / 10))) = Returned OK
   \<and> thread (snd (snd (ClangInvoke_init example_world 5 (process_b, invoke_counter (19 / 10)))))
       = 1
   \<and> clang_invokable
        (snd (snd (ClangInvoke_init example_world 5 (process_b, invoke_counter (19 / 10)))))
       \<noteq> None
   \<and> calls (fst (snd (ClangInvoke_init example_world 5 (process_b, invoke_counter (19 / 10)))))
       = calls process_b @ [invokable_factory_call ''make_counter'', ClangInvokable_init 0]"
proof -
  have t: "MYFLT_to_int (19 / 10) = Some 1"
    by (simp add: MYFLT_to_int_def)
  have j: "jit_compiler process_b
             = Some \<lparr>name = ''<main-1>'',
                     main_jit_dylib = [(''main_b'', EntryFn (\<lambda>c. 0)),
                                       (''make_counter'', FactoryFn (Some counter))]\<rparr>"
    by (simp add: process_b_def)
  have i: "invokable_init counter (members counter) 5 [] [] = (0, [0], [0])"
    by (simp add: counter_def)
  show ?thesis
    by (simp add: ClangInvoke_init_def Let_def t invoke_counter_fields j make_counter_b i OK_def)
qed

text \<open>
  C7. With execution mode 2 \<^verbatim>\<open>init\<close> never calls the object's setup: the only call it can
  add is the call of the factory. When the session exists and the factory's name resolves
  to a factory, \<^verbatim>\<open>init\<close> returns \<^verbatim>\<open>OK\<close> with the factory's product in the opcode, and the
  product, when there is one, is driven by the next \<^verbatim>\<open>kontrol\<close> as it came from the
  factory.
\<close>

theorem update_only_skips_setup:
  assumes "i_thread self = 2"
  shows "(calls (fst (snd (ClangInvoke_init w csound (p, self)))) = calls p
          \<or> calls (fst (snd (ClangInvoke_init w csound (p, self))))
               = calls p @ [invokable_factory_call (S_invokable_factory self)])
         \<and> (\<forall>jit instance.
               jit_compiler p = Some jit
               \<and> getSymbolAddress w (loaded_libraries p) jit (S_invokable_factory self)
                   = Inr (FactoryFn instance)
               \<longrightarrow> ClangInvoke_init w csound (p, self)
                     = (Returned OK,
                        p\<lparr>calls := calls p @ [invokable_factory_call (S_invokable_factory self)]\<rparr>,
                        self\<lparr>thread := 2, clang_invokable := instance\<rparr>)
                   \<and> (\<forall>obj. instance = Some obj \<longrightarrow>
                         fst (ClangInvoke_kontrol csound
                                (snd (ClangInvoke_init w csound (p, self))))
                         = Returned (fst (invokable_kontrol obj (members obj) csound
                                            (outputs self) (inputs self)))))"
proof -
  have t: "MYFLT_to_int (i_thread self) = Some 2"
    using assms by (simp add: MYFLT_to_int_numerals)
  show ?thesis
    by (auto simp add: ClangInvoke_init_def ClangInvoke_kontrol_def Let_def t
        split: option.splits sum.splits symbol.splits prod.splits)
qed

theorem update_only_skips_setup_witness:
  "ClangInvoke_init example_world 5 (process_b, invoke_counter 2)
     = (Returned OK,
        process_b\<lparr>calls := calls process_b @ [invokable_factory_call ''make_counter'']\<rparr>,
        (invoke_counter 2)\<lparr>thread := 2, clang_invokable := Some counter\<rparr>)
   \<and> fst (ClangInvoke_kontrol 5
             (snd (ClangInvoke_init example_world 5 (process_b, invoke_counter 2))))
       = Returned 0"
proof -
  have h: "i_thread (invoke_counter 2) = 2"
    by (simp add: invoke_counter_fields)
  have j: "jit_compiler process_b
             = Some \<lparr>name = ''<main-1>'',
                     main_jit_dylib = [(''main_b'', EntryFn (\<lambda>c. 0)),
                                       (''make_counter'', FactoryFn (Some counter))]\<rparr>"
    by (simp add: process_b_def)
  have g: "getSymbolAddress example_world (loaded_libraries process_b)
             \<lparr>name = ''<main-1>'',
              main_jit_dylib = [(''main_b'', EntryFn (\<lambda>c. 0)),
                                (''make_counter'', FactoryFn (Some counter))]\<rparr>
             (S_invokable_factory (invoke_counter 2))
           = Inr (FactoryFn (Some counter))"
    by (simp add: invoke_counter_fields make_counter_b)
  note t = update_only_skips_setup [OF h, of example_world 5 process_b, THEN conjunct2,
      rule_format, OF conjI, OF j g]
  have a: "ClangInvoke_init example_world 5 (process_b, invoke_counter 2)
     = (Returned OK,
        process_b\<lparr>calls := calls process_b @ [invokable_factory_call ''make_counter'']\<rparr>,
        (invoke_counter 2)\<lparr>thread := 2, clang_invokable := Some counter\<rparr>)"
    using t [THEN conjunct1] by (simp add: invoke_counter_fields)
  have b: "fst (ClangInvoke_kontrol 5
             (snd (ClangInvoke_init example_world 5 (process_b, invoke_counter 2))))
       = Returned 0"
    using t [THEN conjunct2, rule_format, OF refl]
    by (simp add: invoke_counter_fields counter_def)
  show ?thesis
    by (rule conjI [OF a b])
qed

lemma run_kontrol_thread_1:
  "thread (ops i) = 1 \<Longrightarrow>
   \<exists>ops'. run w csound (map (clang_invoke_kontrol i) inss) (p, ops)
            = (replicate (length inss) (Returned OK), p, ops')
          \<and> outputs (ops' i) = outputs (ops i)
          \<and> clang_invokable (ops' i) = clang_invokable (ops i)"
proof (induction inss arbitrary: ops)
  case Nil
  then show ?case by simp
next
  case (Cons ins inss)
  define ops1 where "ops1 = ops(i := (ops i)\<lparr>inputs := ins\<rparr>)"
  have s: "step w csound (clang_invoke_kontrol i ins) (p, ops) = (Returned OK, p, ops1)"
    using Cons.prems by (simp add: ClangInvoke_kontrol_thread_1 ops1_def)
  have "thread (ops1 i) = 1"
    using Cons.prems by (simp add: ops1_def)
  then obtain ops' where
    r: "run w csound (map (clang_invoke_kontrol i) inss) (p, ops1)
          = (replicate (length inss) (Returned OK), p, ops')"
    and o: "outputs (ops' i) = outputs (ops1 i)"
    and c: "clang_invokable (ops' i) = clang_invokable (ops1 i)"
    using Cons.IH [of ops1] by blast
  have "run w csound (map (clang_invoke_kontrol i) (ins # inss)) (p, ops)
          = (replicate (length (ins # inss)) (Returned OK), p, ops')"
    by (simp add: s r del: step.simps)
  moreover have "outputs (ops' i) = outputs (ops i)"
    using o by (simp add: ops1_def)
  moreover have "clang_invokable (ops' i) = clang_invokable (ops i)"
    using c by (simp add: ops1_def)
  ultimately show ?case by blast
qed

text \<open>
  C8. An instance constructed with execution mode 1: whatever number of \<^verbatim>\<open>kontrol\<close> calls
  Csound makes on it, with whatever inputs, each returns \<^verbatim>\<open>OK\<close>, the process is as before
  (the object's update was not called), and the outputs and the object of the opcode are
  the ones \<^verbatim>\<open>init\<close> left.
\<close>

theorem setup_only_update_noop:
  assumes "i_thread self0 = 1"
    and "ClangInvoke_init w csound (p0, self0) = (Returned r, p, self)"
    and "ops i = self"
  shows "ClangInvoke_kontrol csound (p, self) = (Returned OK, p, self)
         \<and> fst (run w csound (map (clang_invoke_kontrol i) inss) (p, ops))
             = replicate (length inss) (Returned OK)
         \<and> fst (snd (run w csound (map (clang_invoke_kontrol i) inss) (p, ops))) = p
         \<and> outputs (snd (snd (run w csound (map (clang_invoke_kontrol i) inss) (p, ops))) i)
             = outputs self
         \<and> clang_invokable (snd (snd (run w csound (map (clang_invoke_kontrol i) inss) (p, ops))) i)
             = clang_invokable self"
proof -
  have "MYFLT_to_int (i_thread self0) = Some (thread self)"
    using assms(2) by (rule ClangInvoke_init_thread)
  then have t: "thread self = 1"
    using assms(1) by (simp add: MYFLT_to_int_numerals)
  then have "thread (ops i) = 1"
    using assms(3) by simp
  then obtain ops' where
    "run w csound (map (clang_invoke_kontrol i) inss) (p, ops)
       = (replicate (length inss) (Returned OK), p, ops')"
    and "outputs (ops' i) = outputs (ops i)"
    and "clang_invokable (ops' i) = clang_invokable (ops i)"
    using run_kontrol_thread_1 [of ops i w csound inss p] by blast
  then show ?thesis
    using t assms(3) by (simp add: ClangInvoke_kontrol_thread_1)
qed

theorem setup_only_update_noop_witness:
  "fst (run example_world 5 (map (clang_invoke_kontrol 0) [[], [1], [2]])
          (fst (snd (ClangInvoke_init example_world 5 (process_b, invoke_counter 1))),
           (\<lambda>i. ClangInvoke_start)
             (0 := snd (snd (ClangInvoke_init example_world 5 (process_b, invoke_counter 1))))))
     = [Returned OK, Returned OK, Returned OK]
   \<and> outputs
        (snd (snd (run example_world 5 (map (clang_invoke_kontrol 0) [[], [1], [2]])
          (fst (snd (ClangInvoke_init example_world 5 (process_b, invoke_counter 1))),
           (\<lambda>i. ClangInvoke_start)
             (0 := snd (snd (ClangInvoke_init example_world 5 (process_b, invoke_counter 1)))))))
           0)
       = [0]"
proof -
  let ?I = "ClangInvoke_init example_world 5 (process_b, invoke_counter 1)"
  let ?ops = "(\<lambda>i. ClangInvoke_start)(0 := snd (snd ?I))"
  have h1: "i_thread (invoke_counter 1) = 1"
    by (simp add: invoke_counter_fields)
  have j: "jit_compiler process_b
             = Some \<lparr>name = ''<main-1>'',
                     main_jit_dylib = [(''main_b'', EntryFn (\<lambda>c. 0)),
                                       (''make_counter'', FactoryFn (Some counter))]\<rparr>"
    by (simp add: process_b_def)
  have i: "invokable_init counter (members counter) 5 [] [] = (0, [0], [0])"
    by (simp add: counter_def)
  have e: "fst ?I = Returned 0 \<and> outputs (snd (snd ?I)) = [0]"
    by (simp add: ClangInvoke_init_def Let_def MYFLT_to_int_numerals invoke_counter_fields j
        make_counter_b i)
  then have h2: "?I = (Returned 0, fst (snd ?I), snd (snd ?I))"
    by (simp add: prod_eq_iff)
  have h3: "?ops 0 = snd (snd ?I)"
    by simp
  note t = setup_only_update_noop [where ops = ?ops and i = 0 and inss = "[[], [1], [2]]",
      OF h1 h2 h3]
  have a: "fst (run example_world 5 (map (clang_invoke_kontrol 0) [[], [1], [2]])
                  (fst (snd ?I), ?ops))
           = [Returned OK, Returned OK, Returned OK]"
    using t [THEN conjunct2, THEN conjunct1] by (simp add: numeral_3_eq_3)
  have b: "outputs (snd (snd (run example_world 5 (map (clang_invoke_kontrol 0) [[], [1], [2]])
                  (fst (snd ?I), ?ops))) 0) = [0]"
    using t [THEN conjunct2, THEN conjunct2, THEN conjunct2, THEN conjunct1] e by simp
  show ?thesis
    by (rule conjI [OF a b])
qed

text \<open>
  C9. On an opcode that holds an object, \<^verbatim>\<open>noteoff\<close> calls the object's teardown once,
  returns its status whatever it is, and leaves the instance pointer null.
\<close>

theorem teardown_releases:
  assumes "clang_invokable self = Some obj"
  shows "ClangInvoke_noteoff csound (p, self) =
           (Returned (invokable_noteoff obj (members obj) csound),
            p\<lparr>calls := calls p
                 @ [ClangInvokable_noteoff (invokable_noteoff obj (members obj) csound)]\<rparr>,
            self\<lparr>clang_invokable := None\<rparr>)"
  using assms by (simp add: ClangInvoke_noteoff_def Let_def)

theorem teardown_releases_witness:
  "ClangInvoke_noteoff 5 (process_start, counting 3) =
     (Returned 7, process_start\<lparr>calls := [ClangInvokable_noteoff 7]\<rparr>,
      (counting 3)\<lparr>clang_invokable := None\<rparr>)"
proof -
  have h: "clang_invokable (counting 3) = Some counter"
    by (simp add: counting_def)
  show ?thesis
    using teardown_releases [OF h, of 5 process_start]
    by (simp add: counter_def process_start_def)
qed

text \<open>
  C10. \<^verbatim>\<open>ClangInvoke::init\<close> with a valid execution mode and no JIT compiler in the
  process (no compile request has produced a module yet) does not return a status: it
  calls a member function through the null \<^verbatim>\<open>jit_compiler\<close>, which is undefined in C++.
\<close>

theorem invoke_without_session_undefined:
  assumes "jit_compiler p = None"
    and "MYFLT_to_int (i_thread self) = Some m" and "m \<in> {1, 2, 3}"
  shows "ClangInvoke_init w csound (p, self) = (Undefined, p, self\<lparr>thread := m\<rparr>)
         \<and> (\<forall>r. fst (ClangInvoke_init w csound (p, self)) \<noteq> Returned r)"
  using assms by (auto simp add: ClangInvoke_init_def Let_def)

theorem invoke_without_session_undefined_witness:
  "fst (ClangInvoke_init example_world 5
          (process_start, ClangInvoke_start\<lparr>S_invokable_factory := ''make_counter'', i_thread := 3\<rparr>))
     = Undefined"
proof -
  have h1: "jit_compiler process_start = None"
    by (simp add: process_start_def)
  have h2: "MYFLT_to_int (i_thread (ClangInvoke_start\<lparr>S_invokable_factory := ''make_counter'',
              i_thread := 3\<rparr>)) = Some 3"
    by (simp add: MYFLT_to_int_numerals)
  have h3: "(3::int) \<in> {1, 2, 3}"
    by simp
  show ?thesis
    using invoke_without_session_undefined [OF h1 h2 h3, of example_world 5]
    by simp
qed

section \<open>Properties of ClangCompile\<close>

lemma options_loop_eq:
  "options_loop ts (enabled, args) = (enabled \<or> ''-v'' \<in> set ts, args @ ts)"
  by (induction ts arbitrary: enabled args) auto

lemma parse_options_eq:
  "parse_options self =
     (''-v'' \<in> set (tokenize (S_compiler_options self) CHR '' ''),
      tokenize (S_compiler_options self) CHR '' '')"
  by (simp add: parse_options_def options_loop_eq)

lemma load_libraries_eq:
  "load_libraries ls p =
     p\<lparr>loaded_libraries := loaded_libraries p @ ls,
       calls := calls p @ map LoadLibraryPermanently ls\<rparr>"
  by (induction ls arbitrary: p) auto

lemma dylib_name_first:
  "dylib_count p = 0 \<Longrightarrow> dylib_name p = (''<main-1>'', p\<lparr>dylib_count := 1\<rparr>)"
  by (simp add: dylib_name_def printf_d_1)

lemma link_and_call_diagnostics:
  "clang_diagnostics_enabled (snd (link_and_call w csound self mdl p))
     = clang_diagnostics_enabled p"
  by (simp add: link_and_call_def load_libraries_eq JITCompiler_Create_def dylib_name_def Let_def
      split: option.splits sum.splits prod.splits symbol.splits)

lemma ClangCompile_init_diagnostics:
  "clang_diagnostics_enabled (fst (snd (ClangCompile_init w csound (p, self))))
     = (''-v'' \<in> set (tokenize (S_compiler_options self) CHR '' ''))"
  by (simp add: ClangCompile_init_def parse_options_eq split_beta Let_def
      link_and_call_diagnostics split: sum.splits option.splits)

lemma ClangCompile_init_self:
  "snd (snd (ClangCompile_init w csound (p, self))) = self"
  by (simp add: ClangCompile_init_def Let_def split_beta split: sum.splits option.splits)

lemma link_and_call_status:
  "fst (link_and_call w csound self mdl p) \<in> {Returned OK, Exited 1, Undefined}"
  by (simp add: link_and_call_def Let_def
      split: option.splits sum.splits prod.splits symbol.splits)

lemma emit_llvm_status: "emit_llvm w self = Inl r \<Longrightarrow> r = 0 \<or> r = 1"
  by (auto simp add: emit_llvm_def split: option.splits if_splits)

lemma ClangCompile_init_status:
  "fst (ClangCompile_init w csound (p, self)) \<in> {Returned 0, Returned 1, Exited 1, Undefined}"
  using link_and_call_status [of w csound self]
  by (auto simp add: ClangCompile_init_def Let_def split_beta OK_def
      split: sum.splits option.splits dest: emit_llvm_status)

text \<open>
  C1, at the source unit of the spec's first scenario in a fresh process: the options are
  empty, the driver plans one job, the front end has no error and gives a module, and the
  entry point \<^verbatim>\<open>main_a\<close> returns 42. \<^verbatim>\<open>init\<close> creates the JIT compiler, adds the module and
  calls \<^verbatim>\<open>main_a\<close> once with the host context, getting 42. It then returns \<^verbatim>\<open>OK\<close>, which is
  0, and leaves the opcode, with its output \<^verbatim>\<open>i_result\<close>, as it was: the 42 reaches the caller
  neither as the status nor as the output.
\<close>

theorem entry_point_result_dropped:
  "fst (ClangCompile_init example_world 5 (process_start, unit_a [])) = Returned 0
   \<and> calls (fst (snd (ClangCompile_init example_world 5 (process_start, unit_a []))))
       = [JITCompiler_new ''<main-1>'', addModule_done [''main_a''],
          csound_main_call ''main_a'' 5 42]
   \<and> snd (snd (ClangCompile_init example_world 5 (process_start, unit_a []))) = unit_a []
   \<and> i_result (unit_a []) = 0"
proof -
  have "i_result (unit_a []) = 0"
    by (simp add: unit_a_def)
  then show ?thesis
    by (simp add: compile_a_start OK_def process_a_def)
qed

theorem entry_point_result_dropped_witness:
  "fst (ClangCompile_init example_world 5 (process_start, unit_a [])) \<noteq> Returned 42
   \<and> i_result (snd (snd (ClangCompile_init example_world 5 (process_start, unit_a [])))) \<noteq> 42"
  using entry_point_result_dropped by simp

lemma JITCompiler_Create_fails:
  "\<not> (detectHost w \<and> createTargetMachine w \<and> GetForCurrentProcess w) \<Longrightarrow>
   \<exists>e. JITCompiler_Create w p = Inl e"
  by (auto simp add: JITCompiler_Create_def)

lemma dylib_name_fst:
  "dylib_count p' = dylib_count p \<Longrightarrow> fst (dylib_name p') = fst (dylib_name p)"
  by (simp add: dylib_name_def Let_def)

lemma emit_llvm_failure:
  assumes "compilation w self = Some jobs"
    and "length jobs \<noteq> 1 \<or> \<not> is_Command (hd jobs) \<or> creator_name (hd jobs) \<noteq> ''clang''
         \<or> \<not> hasDiagnostics w
         \<or> ExecuteAction w (arguments (hd jobs)) (source_filepath w) (S_source_code self) = None"
  shows "emit_llvm w self = Inl 1"
  using assms by (auto simp add: emit_llvm_def)

lemma ClangCompile_init_front_end:
  assumes "emit_llvm w self = Inl r"
  shows "ClangCompile_init w csound (p, self)
           = (Returned r, p\<lparr>clang_diagnostics_enabled := fst (parse_options self)\<rparr>, self)"
  using assms by (simp add: ClangCompile_init_def)

lemma link_and_call_no_session:
  assumes "jit_compiler p = None"
    and "\<not> (detectHost w \<and> createTargetMachine w \<and> GetForCurrentProcess w)"
  shows "fst (link_and_call w csound self mdl p) = Exited 1
         \<and> jit_compiler (snd (link_and_call w csound self mdl p)) = None
         \<and> calls (snd (link_and_call w csound self mdl p))
             = calls p @ map LoadLibraryPermanently (tokenize (S_link_libraries self) CHR '' '')"
proof -
  let ?p1 = "load_libraries (tokenize (S_link_libraries self) CHR '' '') p"
  have n: "jit_compiler ?p1 = None"
    using assms(1) by (simp add: load_libraries_eq)
  obtain e where "JITCompiler_Create w ?p1 = Inl e"
    using JITCompiler_Create_fails [OF assms(2)] by blast
  then show ?thesis
    using n by (simp add: link_and_call_def Let_def) (simp add: load_libraries_eq)
qed

lemma link_and_call_addModule_error:
  assumes "jit_compiler p = Some jit" and "addModule jit mdl = Inl e"
  shows "fst (link_and_call w csound self mdl p) = Exited 1
         \<and> jit_compiler (snd (link_and_call w csound self mdl p)) = Some jit
         \<and> calls (snd (link_and_call w csound self mdl p))
             = calls p @ map LoadLibraryPermanently (tokenize (S_link_libraries self) CHR '' '')"
  using assms by (simp add: link_and_call_def Let_def load_libraries_eq)

lemma link_and_call_lookup_error:
  assumes "jit_compiler p = Some jit" and "addModule jit mdl = Inr jit'"
    and "getSymbolAddress w (loaded_libraries p @ tokenize (S_link_libraries self) CHR '' '')
           jit' (S_entry_point self) = Inl e"
  shows "fst (link_and_call w csound self mdl p) = Exited 1
         \<and> calls (snd (link_and_call w csound self mdl p))
             = calls p @ map LoadLibraryPermanently (tokenize (S_link_libraries self) CHR '' '')
                 @ [addModule_done (map fst mdl)]"
  using assms by (simp add: link_and_call_def Let_def load_libraries_eq)

lemma link_and_call_first_lookup_error:
  assumes "jit_compiler p = None"
    and "detectHost w \<and> createTargetMachine w \<and> GetForCurrentProcess w"
    and "getSymbolAddress w (loaded_libraries p @ tokenize (S_link_libraries self) CHR '' '')
           \<lparr>name = fst (dylib_name p), main_jit_dylib = mdl\<rparr> (S_entry_point self) = Inl e"
  shows "fst (link_and_call w csound self mdl p) = Exited 1
         \<and> calls (snd (link_and_call w csound self mdl p))
             = calls p @ map LoadLibraryPermanently (tokenize (S_link_libraries self) CHR '' '')
                 @ [JITCompiler_new (fst (dylib_name p)), addModule_done (map fst mdl)]"
  using assms
  by (simp add: link_and_call_def Let_def load_libraries_eq JITCompiler_Create_def
      dylib_name_def addModule_def)

lemma ClangCompile_init_module:
  assumes "emit_llvm w self = Inr (Some mdl)"
  shows "fst (ClangCompile_init w csound (p, self))
           = fst (link_and_call w csound self mdl
                    (p\<lparr>clang_diagnostics_enabled := fst (parse_options self)\<rparr>))
         \<and> fst (snd (ClangCompile_init w csound (p, self)))
           = snd (link_and_call w csound self mdl
                    (p\<lparr>clang_diagnostics_enabled := fst (parse_options self)\<rparr>))"
  using assms by (simp add: ClangCompile_init_def Let_def split_beta)

text \<open>
  C2, as amended. A fatal condition of the front end (the compilation holds no job or
  several, its job is not a command or not one of \<^verbatim>\<open>clang\<close>, there is no diagnostics
  engine, or the code generation action fails) is returned to the caller as the status 1,
  which is not \<^verbatim>\<open>OK\<close>, with the JIT compiler and the calls as before. A fatal condition of
  the session, once the front end has given a module, is not returned: when the JIT
  compiler cannot be created, when \<^verbatim>\<open>addModule\<close> gives an error (a duplicate symbol is
  one), or when the entry point cannot be found, be it in the compiler the process had or
  in the one this request created, \<^verbatim>\<open>exit_on_error\<close> ends the process with exit code 1;
  after a failed \<^verbatim>\<open>addModule\<close> the compiler is the one from before. Nothing is tried again:
  the calls of the request are the library loads and, up to the operation that failed, one
  construction of the compiler and one \<^verbatim>\<open>addModule\<close>, and the entry point is not called.
\<close>

theorem fatal_conditions_of_compile:
  "(\<forall>jobs. compilation w self = Some jobs
        \<and> (length jobs \<noteq> 1 \<or> \<not> is_Command (hd jobs) \<or> creator_name (hd jobs) \<noteq> ''clang''
            \<or> \<not> hasDiagnostics w
            \<or> ExecuteAction w (arguments (hd jobs)) (source_filepath w) (S_source_code self)
                = None)
      \<longrightarrow> fst (ClangCompile_init w csound (p, self)) = Returned 1 \<and> 1 \<noteq> OK
          \<and> jit_compiler (fst (snd (ClangCompile_init w csound (p, self)))) = jit_compiler p
          \<and> calls (fst (snd (ClangCompile_init w csound (p, self)))) = calls p)
   \<and> (\<forall>mdl. emit_llvm w self = Inr (Some mdl) \<longrightarrow>
         (jit_compiler p = None
            \<and> \<not> (detectHost w \<and> createTargetMachine w \<and> GetForCurrentProcess w)
          \<longrightarrow> fst (ClangCompile_init w csound (p, self)) = Exited 1
              \<and> jit_compiler (fst (snd (ClangCompile_init w csound (p, self)))) = None
              \<and> calls (fst (snd (ClangCompile_init w csound (p, self))))
                  = calls p
                    @ map LoadLibraryPermanently (tokenize (S_link_libraries self) CHR '' ''))
       \<and> (\<forall>jit e. jit_compiler p = Some jit \<and> addModule jit mdl = Inl e
          \<longrightarrow> fst (ClangCompile_init w csound (p, self)) = Exited 1
              \<and> jit_compiler (fst (snd (ClangCompile_init w csound (p, self)))) = Some jit
              \<and> calls (fst (snd (ClangCompile_init w csound (p, self))))
                  = calls p
                    @ map LoadLibraryPermanently (tokenize (S_link_libraries self) CHR '' ''))
       \<and> (\<forall>jit jit' e. jit_compiler p = Some jit \<and> addModule jit mdl = Inr jit'
            \<and> getSymbolAddress w
                 (loaded_libraries p @ tokenize (S_link_libraries self) CHR '' '')
                 jit' (S_entry_point self) = Inl e
          \<longrightarrow> fst (ClangCompile_init w csound (p, self)) = Exited 1
              \<and> calls (fst (snd (ClangCompile_init w csound (p, self))))
                  = calls p
                    @ map LoadLibraryPermanently (tokenize (S_link_libraries self) CHR '' '')
                    @ [addModule_done (map fst mdl)])
       \<and> (\<forall>e. jit_compiler p = None
            \<and> detectHost w \<and> createTargetMachine w \<and> GetForCurrentProcess w
            \<and> getSymbolAddress w
                 (loaded_libraries p @ tokenize (S_link_libraries self) CHR '' '')
                 \<lparr>name = fst (dylib_name p), main_jit_dylib = mdl\<rparr> (S_entry_point self)
                = Inl e
          \<longrightarrow> fst (ClangCompile_init w csound (p, self)) = Exited 1
              \<and> calls (fst (snd (ClangCompile_init w csound (p, self))))
                  = calls p
                    @ map LoadLibraryPermanently (tokenize (S_link_libraries self) CHR '' '')
                    @ [JITCompiler_new (fst (dylib_name p)), addModule_done (map fst mdl)]))"
proof -
  let ?p1 = "p\<lparr>clang_diagnostics_enabled := fst (parse_options self)\<rparr>"
  let ?R = "ClangCompile_init w csound (p, self)"
  have front: "fst ?R = Returned 1 \<and> 1 \<noteq> OK
          \<and> jit_compiler (fst (snd ?R)) = jit_compiler p \<and> calls (fst (snd ?R)) = calls p"
    if "compilation w self = Some jobs
        \<and> (length jobs \<noteq> 1 \<or> \<not> is_Command (hd jobs) \<or> creator_name (hd jobs) \<noteq> ''clang''
            \<or> \<not> hasDiagnostics w
            \<or> ExecuteAction w (arguments (hd jobs)) (source_filepath w) (S_source_code self)
                = None)" for jobs
  proof -
    have "emit_llvm w self = Inl 1"
      using that emit_llvm_failure [of w self jobs] by blast
    then show ?thesis
      by (simp add: ClangCompile_init_front_end OK_def)
  qed
  have create: "fst ?R = Exited 1 \<and> jit_compiler (fst (snd ?R)) = None
          \<and> calls (fst (snd ?R))
              = calls p @ map LoadLibraryPermanently (tokenize (S_link_libraries self) CHR '' '')"
    if m: "emit_llvm w self = Inr (Some mdl)"
      and c: "jit_compiler p = None
            \<and> \<not> (detectHost w \<and> createTargetMachine w \<and> GetForCurrentProcess w)" for mdl
  proof -
    have n: "jit_compiler ?p1 = None"
      using c by simp
    have f: "\<not> (detectHost w \<and> createTargetMachine w \<and> GetForCurrentProcess w)"
      using c by simp
    show ?thesis
      using link_and_call_no_session [OF n f, of csound self mdl]
      by (simp add: ClangCompile_init_module [OF m])
  qed
  have add: "fst ?R = Exited 1 \<and> jit_compiler (fst (snd ?R)) = Some jit
          \<and> calls (fst (snd ?R))
              = calls p @ map LoadLibraryPermanently (tokenize (S_link_libraries self) CHR '' '')"
    if m: "emit_llvm w self = Inr (Some mdl)"
      and c: "jit_compiler p = Some jit \<and> addModule jit mdl = Inl e" for mdl jit e
  proof -
    have j: "jit_compiler ?p1 = Some jit" and a: "addModule jit mdl = Inl e"
      using c by simp_all
    show ?thesis
      using link_and_call_addModule_error [OF j a, of w csound self]
      by (simp add: ClangCompile_init_module [OF m])
  qed
  have lookup: "fst ?R = Exited 1
          \<and> calls (fst (snd ?R))
              = calls p @ map LoadLibraryPermanently (tokenize (S_link_libraries self) CHR '' '')
                  @ [addModule_done (map fst mdl)]"
    if m: "emit_llvm w self = Inr (Some mdl)"
      and c: "jit_compiler p = Some jit \<and> addModule jit mdl = Inr jit'
            \<and> getSymbolAddress w
                 (loaded_libraries p @ tokenize (S_link_libraries self) CHR '' '')
                 jit' (S_entry_point self) = Inl e" for mdl jit jit' e
  proof -
    have j: "jit_compiler ?p1 = Some jit" and a: "addModule jit mdl = Inr jit'"
      and g: "getSymbolAddress w
                (loaded_libraries ?p1 @ tokenize (S_link_libraries self) CHR '' '')
                jit' (S_entry_point self) = Inl e"
      using c by simp_all
    show ?thesis
      using link_and_call_lookup_error [OF j a g, of csound]
      by (simp add: ClangCompile_init_module [OF m])
  qed
  have first: "fst ?R = Exited 1
          \<and> calls (fst (snd ?R))
              = calls p @ map LoadLibraryPermanently (tokenize (S_link_libraries self) CHR '' '')
                  @ [JITCompiler_new (fst (dylib_name p)), addModule_done (map fst mdl)]"
    if m: "emit_llvm w self = Inr (Some mdl)"
      and c: "jit_compiler p = None
            \<and> detectHost w \<and> createTargetMachine w \<and> GetForCurrentProcess w
            \<and> getSymbolAddress w
                 (loaded_libraries p @ tokenize (S_link_libraries self) CHR '' '')
                 \<lparr>name = fst (dylib_name p), main_jit_dylib = mdl\<rparr> (S_entry_point self)
                = Inl e" for mdl e
  proof -
    have d: "fst (dylib_name ?p1) = fst (dylib_name p)"
      by (rule dylib_name_fst) simp
    have n: "jit_compiler ?p1 = None"
      and h: "detectHost w \<and> createTargetMachine w \<and> GetForCurrentProcess w"
      and g: "getSymbolAddress w
                (loaded_libraries ?p1 @ tokenize (S_link_libraries self) CHR '' '')
                \<lparr>name = fst (dylib_name ?p1), main_jit_dylib = mdl\<rparr> (S_entry_point self)
               = Inl e"
      using c by (simp_all add: d)
    show ?thesis
      using link_and_call_first_lookup_error [OF n h g, of csound]
      by (simp add: ClangCompile_init_module [OF m] d)
  qed
  show ?thesis
    using front create add lookup first by blast
qed

theorem fatal_conditions_of_compile_witness:
  "fst (ClangCompile_init example_world 5 (process_start, unit_a ''-bogus'')) = Returned 1
   \<and> fst (ClangCompile_init example_world 5 (process_a, unit_a [])) = Exited 1
   \<and> jit_compiler (fst (snd (ClangCompile_init example_world 5 (process_a, unit_a []))))
       = jit_compiler process_a
   \<and> calls (fst (snd (ClangCompile_init example_world 5 (process_a, unit_a []))))
       = calls process_a
   \<and> fst (ClangCompile_init example_world 5
            (process_start, (unit_a [])\<lparr>S_entry_point := ''nope''\<rparr>)) = Exited 1
   \<and> calls (fst (snd (ClangCompile_init example_world 5
            (process_start, (unit_a [])\<lparr>S_entry_point := ''nope''\<rparr>))))
       = [JITCompiler_new ''<main-1>'', addModule_done [''main_a'']]"
proof -
  have t: "tokenize ''-bogus'' CHR '' '' = [''-bogus'']"
    by (simp add: tokenize.simps)
  have c: "compilation example_world (unit_a ''-bogus'') = Some []"
    by (simp add: compilation_def example_world_def unit_a_def parse_options_eq t)
  have l: "length ([] :: Job list) \<noteq> 1"
    by simp
  have a: "fst (ClangCompile_init example_world 5 (process_start, unit_a ''-bogus''))
             = Returned 1"
    using fatal_conditions_of_compile
      [of example_world "unit_a ''-bogus''" 5 process_start, THEN conjunct1, rule_format,
        of "[]", THEN conjunct1] c l
    by blast
  have j: "jit_compiler process_a
             = Some \<lparr>name = ''<main-1>'', main_jit_dylib = [(''main_a'', EntryFn (\<lambda>c. 42))]\<rparr>"
    by (simp add: process_a_def)
  have d: "addModule \<lparr>name = ''<main-1>'', main_jit_dylib = [(''main_a'', EntryFn (\<lambda>c. 42))]\<rparr>
             [(''main_a'', EntryFn (\<lambda>c. 42))] = Inl (DuplicateDefinition ''main_a'')"
    by (simp add: addModule_def)
  note b = fatal_conditions_of_compile
      [of example_world "unit_a []" 5 process_a, THEN conjunct2, rule_format, OF emit_a,
        THEN conjunct2, THEN conjunct1, rule_format, OF conjI, OF j d]
  have b': "fst (ClangCompile_init example_world 5 (process_a, unit_a [])) = Exited 1
   \<and> jit_compiler (fst (snd (ClangCompile_init example_world 5 (process_a, unit_a []))))
       = jit_compiler process_a
   \<and> calls (fst (snd (ClangCompile_init example_world 5 (process_a, unit_a []))))
       = calls process_a"
    using b by (simp add: j unit_a_fields tokenize_Nil)
  let ?u = "(unit_a [])\<lparr>S_entry_point := ''nope''\<rparr>"
  have m: "emit_llvm example_world ?u = Inr (Some [(''main_a'', EntryFn (\<lambda>c. 42))])"
    by (simp add: emit_llvm_def compilation_def parse_options_def tokenize_Nil
        source_filepath_def example_world_def unit_a_def)
  have n: "fst (dylib_name process_start) = ''<main-1>''"
    by (simp add: dylib_name_first process_start_def)
  have g: "jit_compiler process_start = None
            \<and> detectHost example_world \<and> createTargetMachine example_world
            \<and> GetForCurrentProcess example_world
            \<and> getSymbolAddress example_world
                 (loaded_libraries process_start @ tokenize (S_link_libraries ?u) CHR '' '')
                 \<lparr>name = fst (dylib_name process_start),
                  main_jit_dylib = [(''main_a'', EntryFn (\<lambda>c. 42))]\<rparr> (S_entry_point ?u)
                = Inl (SymbolsNotFound ''nope'')"
    by (simp add: example_world_host getSymbolAddress_def findSymbol_def process_start_def)
  note f = fatal_conditions_of_compile
      [of example_world ?u 5 process_start, THEN conjunct2, rule_format, OF m,
        THEN conjunct2, THEN conjunct2, THEN conjunct2, rule_format, OF g]
  have f': "fst (ClangCompile_init example_world 5 (process_start, ?u)) = Exited 1
   \<and> calls (fst (snd (ClangCompile_init example_world 5 (process_start, ?u))))
       = [JITCompiler_new ''<main-1>'', addModule_done [''main_a'']]"
  proof -
    have "calls process_start = []"
      by (simp add: process_start_def)
    then show ?thesis
      using f by (simp add: n unit_a_fields tokenize_Nil)
  qed
  show ?thesis
    using a b' f' by simp
qed

text \<open>
  As the spec words it the claim fails: a second compile request for a source unit with
  the entry point of the first ends the process at \<^verbatim>\<open>addModule\<close>; no status is returned.
\<close>

theorem duplicate_symbol_exits_counterexample:
  "fst (run example_world 5 [clang_compile (unit_a []), clang_compile (unit_a [])]
          (process_start, \<lambda>i. ClangInvoke_start))
     = [Returned OK, Exited 1]"
  by (simp add: compile_a_start compile_a_again)

text \<open>
  C3. When the driver's compilation holds no job or more than one, \<^verbatim>\<open>init\<close> returns
  1, which is not \<^verbatim>\<open>OK\<close>. The process differs from the one before in the diagnostics
  flag at most: the JIT compiler pointer is what it was (null if it was null, and the same
  compiler with the same modules otherwise), no compiler was constructed, no library
  loaded, and nothing of LLVM or of compiled code was called.
\<close>

theorem job_count_failure:
  assumes "compilation w self = Some jobs" and "length jobs \<noteq> 1"
  shows "ClangCompile_init w csound (p, self)
           = (Returned 1,
              p\<lparr>clang_diagnostics_enabled :=
                   ''-v'' \<in> set (tokenize (S_compiler_options self) CHR '' '')\<rparr>,
              self)
         \<and> 1 \<noteq> OK
         \<and> jit_compiler (fst (snd (ClangCompile_init w csound (p, self)))) = jit_compiler p
         \<and> dylib_count (fst (snd (ClangCompile_init w csound (p, self)))) = dylib_count p
         \<and> calls (fst (snd (ClangCompile_init w csound (p, self)))) = calls p"
  using assms by (simp add: ClangCompile_init_def emit_llvm_def parse_options_eq OK_def)

theorem job_count_failure_witness:
  "ClangCompile_init example_world 5 (process_start, unit_a ''-bogus'')
     = (Returned 1, process_start, unit_a ''-bogus'')
   \<and> jit_compiler (fst (snd (ClangCompile_init example_world 5
                                 (process_start, unit_a ''-bogus'')))) = None"
proof -
  have t: "tokenize ''-bogus'' CHR '' '' = [''-bogus'']"
    by (simp add: tokenize.simps)
  have h1: "compilation example_world (unit_a ''-bogus'') = Some []"
    by (simp add: compilation_def example_world_def unit_a_def parse_options_eq t)
  have h2: "length ([] :: Job list) \<noteq> 1"
    by simp
  show ?thesis
    using job_count_failure [OF h1 h2, of 5 process_start]
    by (simp add: unit_a_def t process_start_def)
qed

text \<open>
  C4. The diagnostics flag is one flag for the process. Every compile request leaves it
  saying whether that request's own options hold the token \<^verbatim>\<open>-v\<close>, whatever it said
  before; the three functions of \<^verbatim>\<open>clang_invoke\<close> leave it as it is. So the flag set by a
  request with \<^verbatim>\<open>-v\<close> stays through the invoke requests that follow, up to the next
  compile request.
\<close>

theorem diagnostics_set_by_each_compile:
  "clang_diagnostics_enabled (fst (snd (ClangCompile_init w csound (p, self))))
     = (''-v'' \<in> set (tokenize (S_compiler_options self) CHR '' ''))
   \<and> clang_diagnostics_enabled (fst (snd (ClangInvoke_init w csound (p, invoke))))
       = clang_diagnostics_enabled p
   \<and> clang_diagnostics_enabled (fst (snd (ClangInvoke_kontrol csound (p, invoke))))
       = clang_diagnostics_enabled p
   \<and> clang_diagnostics_enabled (fst (snd (ClangInvoke_noteoff csound (p, invoke))))
       = clang_diagnostics_enabled p"
proof -
  have "clang_diagnostics_enabled (fst (snd (ClangInvoke_init w csound (p, invoke))))
          = clang_diagnostics_enabled p"
    by (simp add: ClangInvoke_init_def Let_def
        split: option.splits sum.splits symbol.splits prod.splits)
  moreover have "clang_diagnostics_enabled (fst (snd (ClangInvoke_kontrol csound (p, invoke))))
          = clang_diagnostics_enabled p"
    by (simp add: ClangInvoke_kontrol_def Let_def split: option.splits prod.splits)
  moreover have "clang_diagnostics_enabled (fst (snd (ClangInvoke_noteoff csound (p, invoke))))
          = clang_diagnostics_enabled p"
    by (simp add: ClangInvoke_noteoff_def Let_def split: option.splits)
  ultimately show ?thesis
    by (simp add: ClangCompile_init_diagnostics)
qed

theorem diagnostics_set_by_each_compile_witness:
  "clang_diagnostics_enabled
     (fst (snd (ClangCompile_init example_world 5 (process_start, unit_a ''-v''))))
   \<and> \<not> clang_diagnostics_enabled
         (fst (snd (ClangCompile_init example_world 5
            (process_start\<lparr>clang_diagnostics_enabled := True\<rparr>, unit_b))))
   \<and> clang_diagnostics_enabled
       (fst (snd (ClangInvoke_kontrol 5
          (process_start\<lparr>clang_diagnostics_enabled := True\<rparr>, counting 3))))"
proof -
  have t: "tokenize ''-v'' CHR '' '' = [''-v'']"
    by (simp add: tokenize.simps)
  show ?thesis
    using diagnostics_set_by_each_compile [of example_world 5 process_start "unit_a ''-v''"]
      diagnostics_set_by_each_compile
        [of example_world 5 "process_start\<lparr>clang_diagnostics_enabled := True\<rparr>" unit_b
            "counting 3"]
    by (simp add: unit_a_def unit_b_def t tokenize_Nil)
qed

text \<open>
  As the spec words it the claim fails: after a compile request with \<^verbatim>\<open>-v\<close> the flag is
  on, and after a next compile request without the token it is off.
\<close>

theorem diagnostics_reset_counterexample:
  "clang_diagnostics_enabled
     (fst (snd (run example_world 5 [clang_compile (unit_a ''-v'')]
                  (process_start, \<lambda>i. ClangInvoke_start))))
   \<and> \<not> clang_diagnostics_enabled
         (fst (snd (run example_world 5 [clang_compile (unit_a ''-v''), clang_compile unit_b]
                      (process_start, \<lambda>i. ClangInvoke_start))))"
  by code_simp

section \<open>The one JIT compiler of the process\<close>

lemma addModule_Inr:
  "addModule jit mdl = Inr jit' \<Longrightarrow>
   name jit' = name jit \<and> main_jit_dylib jit' = main_jit_dylib jit @ mdl"
  by (auto simp add: addModule_def split: list.splits)

lemma JITCompiler_Create_Inr:
  "JITCompiler_Create w p = Inr (jit, p') \<Longrightarrow>
   name jit = fst (dylib_name p) \<and> dylib_count p' = dylib_count p + 1
   \<and> jit_compiler p' = jit_compiler p"
  by (auto simp add: JITCompiler_Create_def dylib_name_def Let_def split: if_splits)

lemma one_session_statics:
  "jit_compiler p' = jit_compiler p \<Longrightarrow> dylib_count p' = dylib_count p \<Longrightarrow>
   one_session p' = one_session p"
  by (simp add: one_session_def split: option.splits)

lemma link_and_call_one_session:
  assumes "one_session p"
  shows "one_session (snd (link_and_call w csound self mdl p))"
proof (cases "jit_compiler p")
  case None
  then have c: "dylib_count p = 0"
    using assms by (simp add: one_session_def)
  let ?p1 = "load_libraries (tokenize (S_link_libraries self) CHR '' '') p"
  have n: "jit_compiler ?p1 = None" and c1: "dylib_count ?p1 = 0"
    using None c by (simp_all add: load_libraries_eq)
  show ?thesis
  proof (cases "JITCompiler_Create w ?p1")
    case (Inl e)
    then show ?thesis
      using n c1 by (simp add: link_and_call_def Let_def one_session_def)
  next
    case (Inr jp)
    obtain jit p2 where jp: "jp = (jit, p2)"
      by (cases jp)
    have nm: "name jit = ''<main-1>''" and c2: "dylib_count p2 = 1"
      using JITCompiler_Create_Inr [of w ?p1 jit p2] Inr jp dylib_name_first [OF c1]
      by (simp_all add: c1)
    show ?thesis
      using Inr jp n nm c2
      by (auto simp add: link_and_call_def Let_def one_session_def
          split: sum.splits symbol.splits dest: addModule_Inr)
  qed
next
  case (Some jit)
  then have "dylib_count p = 1" and "name jit = ''<main-1>''"
    using assms by (simp_all add: one_session_def)
  then show ?thesis
    using Some
    by (auto simp add: link_and_call_def Let_def one_session_def load_libraries_eq
        split: sum.splits symbol.splits dest: addModule_Inr)
qed

lemma ClangCompile_init_one_session:
  assumes "one_session p"
  shows "one_session (fst (snd (ClangCompile_init w csound (p, self))))"
proof -
  have "one_session (p\<lparr>clang_diagnostics_enabled := fst (parse_options self)\<rparr>)
          = one_session p"
    by (rule one_session_statics) simp_all
  then have "one_session (p\<lparr>clang_diagnostics_enabled := fst (parse_options self)\<rparr>)"
    using assms by simp
  then show ?thesis
    using link_and_call_one_session
      [of "p\<lparr>clang_diagnostics_enabled := fst (parse_options self)\<rparr>" w csound self]
    by (simp add: ClangCompile_init_def Let_def split_beta split: sum.splits option.splits)
qed

lemma ClangInvoke_init_statics:
  "jit_compiler (fst (snd (ClangInvoke_init w csound (p, self)))) = jit_compiler p
   \<and> dylib_count (fst (snd (ClangInvoke_init w csound (p, self)))) = dylib_count p"
  by (simp add: ClangInvoke_init_def Let_def
      split: option.splits sum.splits symbol.splits prod.splits)

lemma ClangInvoke_kontrol_statics:
  "jit_compiler (fst (snd (ClangInvoke_kontrol csound (p, self)))) = jit_compiler p
   \<and> dylib_count (fst (snd (ClangInvoke_kontrol csound (p, self)))) = dylib_count p"
  by (simp add: ClangInvoke_kontrol_def Let_def split: option.splits prod.splits)

lemma ClangInvoke_noteoff_statics:
  "jit_compiler (fst (snd (ClangInvoke_noteoff csound (p, self)))) = jit_compiler p
   \<and> dylib_count (fst (snd (ClangInvoke_noteoff csound (p, self)))) = dylib_count p"
  by (simp add: ClangInvoke_noteoff_def Let_def split: option.splits)

lemma step_invoke_statics:
  assumes "\<forall>self. r \<noteq> clang_compile self"
  shows "jit_compiler (fst (snd (step w csound r (p, ops)))) = jit_compiler p
         \<and> dylib_count (fst (snd (step w csound r (p, ops)))) = dylib_count p"
proof (cases r)
  case (clang_compile self)
  then show ?thesis using assms by simp
next
  case (clang_invoke_init i factory thr ins)
  then show ?thesis
    using ClangInvoke_init_statics
      [of w csound p "(ops i)\<lparr>S_invokable_factory := factory, i_thread := thr, inputs := ins\<rparr>"]
    by (simp add: split_beta)
next
  case (clang_invoke_kontrol i ins)
  then show ?thesis
    using ClangInvoke_kontrol_statics [of csound p "(ops i)\<lparr>inputs := ins\<rparr>"]
    by (simp add: split_beta)
next
  case (clang_invoke_noteoff i)
  then show ?thesis
    using ClangInvoke_noteoff_statics [of csound p "ops i"]
    by (simp add: split_beta)
qed

lemma step_one_session:
  assumes "one_session p"
  shows "one_session (fst (snd (step w csound r (p, ops))))"
proof (cases "\<exists>self. r = clang_compile self")
  case True
  then obtain self where "r = clang_compile self" by blast
  then show ?thesis
    using ClangCompile_init_one_session [OF assms, of w csound self]
    by (simp add: split_beta)
next
  case False
  then have "\<forall>self. r \<noteq> clang_compile self" by blast
  from step_invoke_statics [OF this, of w csound p ops]
  have "one_session (fst (snd (step w csound r (p, ops)))) = one_session p"
    by (intro one_session_statics) simp_all
  then show ?thesis
    using assms by simp
qed

lemma run_one_session:
  "one_session p \<Longrightarrow> one_session (fst (snd (run w csound rs (p, ops))))"
proof (induction rs arbitrary: p ops)
  case Nil
  then show ?case by simp
next
  case (Cons r rs)
  obtain st p1 ops1 where s: "step w csound r (p, ops) = (st, p1, ops1)"
    by (cases "step w csound r (p, ops)") auto
  have o: "one_session p1"
    using step_one_session [OF Cons.prems, of w csound r ops] s by simp
  show ?case
  proof (cases st)
    case (Returned x)
    then show ?thesis
      using Cons.IH [OF o, of ops1] s by (simp add: split_beta del: step.simps)
  next
    case (Exited x)
    then show ?thesis
      using o s by (simp del: step.simps)
  next
    case Undefined
    then show ?thesis
      using o s by (simp del: step.simps)
  qed
qed

lemma link_and_call_keeps_session:
  assumes "jit_compiler p = Some jit"
  shows "\<exists>jit' ms. jit_compiler (snd (link_and_call w csound self mdl p)) = Some jit'
           \<and> name jit' = name jit
           \<and> main_jit_dylib jit' = main_jit_dylib jit @ ms
           \<and> dylib_count (snd (link_and_call w csound self mdl p)) = dylib_count p"
  using assms
  by (auto simp add: link_and_call_def Let_def load_libraries_eq
      split: sum.splits symbol.splits dest: addModule_Inr)

lemma ClangCompile_init_keeps_session:
  assumes "jit_compiler p = Some jit"
  shows "\<exists>jit' ms. jit_compiler (fst (snd (ClangCompile_init w csound (p, self)))) = Some jit'
           \<and> name jit' = name jit
           \<and> main_jit_dylib jit' = main_jit_dylib jit @ ms
           \<and> dylib_count (fst (snd (ClangCompile_init w csound (p, self)))) = dylib_count p"
proof -
  have "jit_compiler (p\<lparr>clang_diagnostics_enabled := fst (parse_options self)\<rparr>) = Some jit"
    using assms by simp
  from link_and_call_keeps_session [OF this, of w csound self] assms show ?thesis
    by (auto simp add: ClangCompile_init_def Let_def split_beta
        split: sum.splits option.splits)
qed

lemma step_keeps_session:
  assumes "jit_compiler p = Some jit"
  shows "\<exists>jit' ms. jit_compiler (fst (snd (step w csound r (p, ops)))) = Some jit'
           \<and> name jit' = name jit
           \<and> main_jit_dylib jit' = main_jit_dylib jit @ ms
           \<and> dylib_count (fst (snd (step w csound r (p, ops)))) = dylib_count p"
proof (cases "\<exists>self. r = clang_compile self")
  case True
  then obtain self where "r = clang_compile self" by blast
  then show ?thesis
    using ClangCompile_init_keeps_session [OF assms, of w csound self]
    by (simp add: split_beta)
next
  case False
  then have "\<forall>self. r \<noteq> clang_compile self" by blast
  from step_invoke_statics [OF this, of w csound p ops] show ?thesis
    using assms by simp
qed

lemma step_creates_session:
  assumes "jit_compiler p = None"
    and "jit_compiler (fst (snd (step w csound r (p, ops)))) \<noteq> None"
  shows "\<exists>self mdl. r = clang_compile self \<and> emit_llvm w self = Inr (Some mdl)"
proof (cases "\<exists>self. r = clang_compile self")
  case True
  then obtain self where r: "r = clang_compile self" by blast
  have "\<exists>mdl. emit_llvm w self = Inr (Some mdl)"
  proof (rule ccontr)
    assume "\<not> (\<exists>mdl. emit_llvm w self = Inr (Some mdl))"
    then have "jit_compiler (fst (snd (ClangCompile_init w csound (p, self)))) = jit_compiler p"
      by (auto simp add: ClangCompile_init_def Let_def split: sum.splits option.splits)
    then show False
      using assms r by (simp add: split_beta)
  qed
  then show ?thesis
    using r by blast
next
  case False
  then have "\<forall>self. r \<noteq> clang_compile self" by blast
  from step_invoke_statics [OF this, of w csound p ops] show ?thesis
    using assms by simp
qed

lemma link_and_call_creates:
  assumes "jit_compiler p = None"
    and "fst (link_and_call w csound self mdl p) = Returned r"
  shows "jit_compiler (snd (link_and_call w csound self mdl p))
           = Some \<lparr>name = fst (dylib_name p), main_jit_dylib = mdl\<rparr>
         \<and> dylib_count (snd (link_and_call w csound self mdl p)) = dylib_count p + 1"
  using assms
  by (auto simp add: link_and_call_def Let_def load_libraries_eq JITCompiler_Create_def
      dylib_name_def addModule_def split: if_splits sum.splits symbol.splits)

lemma link_and_call_appends:
  assumes "jit_compiler p = Some jit"
    and "fst (link_and_call w csound self mdl p) = Returned r"
  shows "jit_compiler (snd (link_and_call w csound self mdl p))
           = Some (jit\<lparr>main_jit_dylib := main_jit_dylib jit @ mdl\<rparr>)
         \<and> dylib_count (snd (link_and_call w csound self mdl p)) = dylib_count p"
  using assms
  by (auto simp add: link_and_call_def Let_def load_libraries_eq addModule_def
      split: list.splits sum.splits symbol.splits)

lemma ClangCompile_init_creates:
  assumes "jit_compiler p = None" and "emit_llvm w self = Inr (Some mdl)"
    and "fst (ClangCompile_init w csound (p, self)) = Returned r"
  shows "jit_compiler (fst (snd (ClangCompile_init w csound (p, self))))
           = Some \<lparr>name = fst (dylib_name p), main_jit_dylib = mdl\<rparr>
         \<and> dylib_count (fst (snd (ClangCompile_init w csound (p, self)))) = dylib_count p + 1"
proof -
  let ?p1 = "p\<lparr>clang_diagnostics_enabled := fst (parse_options self)\<rparr>"
  have n: "jit_compiler ?p1 = None"
    using assms(1) by simp
  have r: "fst (link_and_call w csound self mdl ?p1) = Returned r"
    using assms(3) by (simp add: ClangCompile_init_module [OF assms(2)])
  have d: "fst (dylib_name ?p1) = fst (dylib_name p)"
    by (rule dylib_name_fst) simp
  show ?thesis
    using link_and_call_creates [OF n r]
    by (simp add: ClangCompile_init_module [OF assms(2)] d)
qed

lemma ClangCompile_init_appends:
  assumes "jit_compiler p = Some jit" and "emit_llvm w self = Inr (Some mdl)"
    and "fst (ClangCompile_init w csound (p, self)) = Returned r"
  shows "jit_compiler (fst (snd (ClangCompile_init w csound (p, self))))
           = Some (jit\<lparr>main_jit_dylib := main_jit_dylib jit @ mdl\<rparr>)
         \<and> dylib_count (fst (snd (ClangCompile_init w csound (p, self)))) = dylib_count p"
proof -
  let ?p1 = "p\<lparr>clang_diagnostics_enabled := fst (parse_options self)\<rparr>"
  have j: "jit_compiler ?p1 = Some jit"
    using assms(1) by simp
  have r: "fst (link_and_call w csound self mdl ?p1) = Returned r"
    using assms(3) by (simp add: ClangCompile_init_module [OF assms(2)])
  show ?thesis
    using link_and_call_appends [OF j r]
    by (simp add: ClangCompile_init_module [OF assms(2)])
qed

text \<open>
  C5, as amended. The process holds at most one JIT compiler at a time, in the one pointer
  \<^verbatim>\<open>jit_compiler\<close>. In a process that serves compile and invoke requests from its start,
  with no teardown between them, at most one JIT compiler is ever constructed
  (\<^verbatim>\<open>dylib_count\<close> counts the constructions), the pointer is null exactly as long as none
  was, and the compiler it holds is the first one. A request served while the pointer holds
  a compiler leaves the pointer holding that compiler, with the modules it had and possibly
  more, and constructs no other. Only a compile request whose front end gave a module sets
  a null pointer. A compile request with a module that returns from a null pointer has
  constructed one compiler, under the next name of \<^verbatim>\<open>dylib_name\<close> (the first name in a
  fresh process), holding that module; one that returns from a set pointer has appended
  its module to the compiler that was there. An invoke request leaves pointer and counter
  as they are. The teardown, \<^verbatim>\<open>csoundModuleDestroy_clang_opcodes\<close>, returns \<^verbatim>\<open>OK\<close> and leaves
  the pointer null and the counter as it is, so the next compile request with a module
  constructs another compiler.
\<close>

theorem single_session:
  "dylib_count (fst (snd (run w csound rs (process_start, ops)))) \<le> 1
   \<and> (jit_compiler (fst (snd (run w csound rs (process_start, ops)))) = None
        \<longleftrightarrow> dylib_count (fst (snd (run w csound rs (process_start, ops)))) = 0)
   \<and> (\<forall>jit. jit_compiler (fst (snd (run w csound rs (process_start, ops)))) = Some jit
        \<longrightarrow> name jit = ''<main-1>'')
   \<and> (\<forall>r p0 ops0 jit. jit_compiler p0 = Some jit
        \<longrightarrow> (\<exists>jit' ms. jit_compiler (fst (snd (step w csound r (p0, ops0)))) = Some jit'
               \<and> name jit' = name jit
               \<and> main_jit_dylib jit' = main_jit_dylib jit @ ms
               \<and> dylib_count (fst (snd (step w csound r (p0, ops0)))) = dylib_count p0))
   \<and> (\<forall>r p0 ops0. jit_compiler p0 = None
          \<and> jit_compiler (fst (snd (step w csound r (p0, ops0)))) \<noteq> None
        \<longrightarrow> (\<exists>self mdl. r = clang_compile self \<and> emit_llvm w self = Inr (Some mdl)))
   \<and> (\<forall>self p0 mdl r. jit_compiler p0 = None \<and> emit_llvm w self = Inr (Some mdl)
          \<and> fst (ClangCompile_init w csound (p0, self)) = Returned r
        \<longrightarrow> jit_compiler (fst (snd (ClangCompile_init w csound (p0, self))))
              = Some \<lparr>name = fst (dylib_name p0), main_jit_dylib = mdl\<rparr>
            \<and> dylib_count (fst (snd (ClangCompile_init w csound (p0, self))))
              = dylib_count p0 + 1)
   \<and> (\<forall>p0. dylib_count p0 = 0 \<longrightarrow> fst (dylib_name p0) = ''<main-1>'')
   \<and> (\<forall>self p0 jit mdl r. jit_compiler p0 = Some jit \<and> emit_llvm w self = Inr (Some mdl)
          \<and> fst (ClangCompile_init w csound (p0, self)) = Returned r
        \<longrightarrow> jit_compiler (fst (snd (ClangCompile_init w csound (p0, self))))
              = Some (jit\<lparr>main_jit_dylib := main_jit_dylib jit @ mdl\<rparr>)
            \<and> dylib_count (fst (snd (ClangCompile_init w csound (p0, self)))) = dylib_count p0)
   \<and> (\<forall>r p0 ops0. (\<forall>self. r \<noteq> clang_compile self)
        \<longrightarrow> jit_compiler (fst (snd (step w csound r (p0, ops0)))) = jit_compiler p0
            \<and> dylib_count (fst (snd (step w csound r (p0, ops0)))) = dylib_count p0)
   \<and> (\<forall>p0. csoundModuleDestroy_clang_opcodes p0 = (OK, p0\<lparr>jit_compiler := None\<rparr>)
            \<and> dylib_count (snd (csoundModuleDestroy_clang_opcodes p0)) = dylib_count p0)"
proof -
  have "one_session process_start"
    by (simp add: one_session_def process_start_def)
  then have "one_session (fst (snd (run w csound rs (process_start, ops))))"
    by (rule run_one_session)
  then have a: "dylib_count (fst (snd (run w csound rs (process_start, ops)))) \<le> 1
   \<and> (jit_compiler (fst (snd (run w csound rs (process_start, ops)))) = None
        \<longleftrightarrow> dylib_count (fst (snd (run w csound rs (process_start, ops)))) = 0)
   \<and> (\<forall>jit. jit_compiler (fst (snd (run w csound rs (process_start, ops)))) = Some jit
        \<longrightarrow> name jit = ''<main-1>'')"
    by (auto simp add: one_session_def split: option.splits)
  have b: "\<forall>r p0 ops0 jit. jit_compiler p0 = Some jit
        \<longrightarrow> (\<exists>jit' ms. jit_compiler (fst (snd (step w csound r (p0, ops0)))) = Some jit'
               \<and> name jit' = name jit
               \<and> main_jit_dylib jit' = main_jit_dylib jit @ ms
               \<and> dylib_count (fst (snd (step w csound r (p0, ops0)))) = dylib_count p0)"
    using step_keeps_session by blast
  have c: "\<forall>r p0 ops0. jit_compiler p0 = None
          \<and> jit_compiler (fst (snd (step w csound r (p0, ops0)))) \<noteq> None
        \<longrightarrow> (\<exists>self mdl. r = clang_compile self \<and> emit_llvm w self = Inr (Some mdl))"
    using step_creates_session by blast
  have d: "\<forall>self p0 mdl r. jit_compiler p0 = None \<and> emit_llvm w self = Inr (Some mdl)
          \<and> fst (ClangCompile_init w csound (p0, self)) = Returned r
        \<longrightarrow> jit_compiler (fst (snd (ClangCompile_init w csound (p0, self))))
              = Some \<lparr>name = fst (dylib_name p0), main_jit_dylib = mdl\<rparr>
            \<and> dylib_count (fst (snd (ClangCompile_init w csound (p0, self))))
              = dylib_count p0 + 1"
    using ClangCompile_init_creates by blast
  have e: "\<forall>p0. dylib_count p0 = 0 \<longrightarrow> fst (dylib_name p0) = ''<main-1>''"
    by (simp add: dylib_name_first)
  have f: "\<forall>self p0 jit mdl r. jit_compiler p0 = Some jit \<and> emit_llvm w self = Inr (Some mdl)
          \<and> fst (ClangCompile_init w csound (p0, self)) = Returned r
        \<longrightarrow> jit_compiler (fst (snd (ClangCompile_init w csound (p0, self))))
              = Some (jit\<lparr>main_jit_dylib := main_jit_dylib jit @ mdl\<rparr>)
            \<and> dylib_count (fst (snd (ClangCompile_init w csound (p0, self)))) = dylib_count p0"
    using ClangCompile_init_appends by blast
  have g: "\<forall>r p0 ops0. (\<forall>self. r \<noteq> clang_compile self)
        \<longrightarrow> jit_compiler (fst (snd (step w csound r (p0, ops0)))) = jit_compiler p0
            \<and> dylib_count (fst (snd (step w csound r (p0, ops0)))) = dylib_count p0"
    using step_invoke_statics by blast
  have h: "\<forall>p0. csoundModuleDestroy_clang_opcodes p0 = (OK, p0\<lparr>jit_compiler := None\<rparr>)
            \<and> dylib_count (snd (csoundModuleDestroy_clang_opcodes p0)) = dylib_count p0"
    by (simp add: csoundModuleDestroy_clang_opcodes_def)
  show ?thesis
    using a b c d e f g h by (intro conjI) blast+
qed

theorem single_session_witness:
  "dylib_count
     (fst (snd (run example_world 5
        [clang_compile unit_b, clang_invoke_init 0 ''make_counter'' 3 [],
         clang_compile (unit_a [])]
        (process_start, \<lambda>i. ClangInvoke_start)))) \<le> 1
   \<and> jit_compiler (fst (snd (ClangCompile_init example_world 5 (process_start, unit_b))))
       = Some \<lparr>name = ''<main-1>'',
               main_jit_dylib = [(''main_b'', EntryFn (\<lambda>c. 0)),
                                 (''make_counter'', FactoryFn (Some counter))]\<rparr>
   \<and> jit_compiler (fst (snd (ClangCompile_init example_world 5 (process_b, unit_a []))))
       = Some \<lparr>name = ''<main-1>'',
               main_jit_dylib = [(''main_b'', EntryFn (\<lambda>c. 0)),
                                 (''make_counter'', FactoryFn (Some counter)),
                                 (''main_a'', EntryFn (\<lambda>c. 42))]\<rparr>
   \<and> dylib_count (fst (snd (ClangCompile_init example_world 5 (process_b, unit_a [])))) = 1
   \<and> jit_compiler (fst (snd (step example_world 5 (clang_invoke_init 0 ''make_counter'' 3 [])
                               (process_b, \<lambda>i. ClangInvoke_start))))
       = jit_compiler process_b"
proof -
  note t = single_session [of example_world 5 _ "\<lambda>i. ClangInvoke_start"]
  have a: "dylib_count
     (fst (snd (run example_world 5
        [clang_compile unit_b, clang_invoke_init 0 ''make_counter'' 3 [],
         clang_compile (unit_a [])]
        (process_start, \<lambda>i. ClangInvoke_start)))) \<le> 1"
    by (rule t [THEN conjunct1])
  have n0: "jit_compiler process_start = None" and c0: "dylib_count process_start = 0"
    by (simp_all add: process_start_def)
  have rb: "fst (ClangCompile_init example_world 5 (process_start, unit_b)) = Returned OK"
    by (simp add: compile_b_start)
  have nm: "fst (dylib_name process_start) = ''<main-1>''"
    using t [of "[]", THEN conjunct2, THEN conjunct2, THEN conjunct2, THEN conjunct2,
        THEN conjunct2, THEN conjunct2, THEN conjunct1, rule_format, OF c0] .
  have b: "jit_compiler (fst (snd (ClangCompile_init example_world 5 (process_start, unit_b))))
       = Some \<lparr>name = ''<main-1>'',
               main_jit_dylib = [(''main_b'', EntryFn (\<lambda>c. 0)),
                                 (''make_counter'', FactoryFn (Some counter))]\<rparr>"
    using t [of "[]", THEN conjunct2, THEN conjunct2, THEN conjunct2, THEN conjunct2,
        THEN conjunct2, THEN conjunct1, rule_format,
        where ?p0.0 = process_start and self = unit_b and r = OK] n0 emit_b rb
    by (simp add: nm)
  have j: "jit_compiler process_b
             = Some \<lparr>name = ''<main-1>'',
                     main_jit_dylib = [(''main_b'', EntryFn (\<lambda>c. 0)),
                                       (''make_counter'', FactoryFn (Some counter))]\<rparr>"
    and c1: "dylib_count process_b = 1"
    by (simp_all add: process_b_def)
  have ra: "fst (ClangCompile_init example_world 5 (process_b, unit_a [])) = Returned OK"
    by (simp add: ClangCompile_init_def emit_a parse_options_def tokenize_Nil link_and_call_def
        addModule_def getSymbolAddress_def findSymbol_def process_b_def unit_a_fields)
  have c: "jit_compiler (fst (snd (ClangCompile_init example_world 5 (process_b, unit_a []))))
       = Some \<lparr>name = ''<main-1>'',
               main_jit_dylib = [(''main_b'', EntryFn (\<lambda>c. 0)),
                                 (''make_counter'', FactoryFn (Some counter)),
                                 (''main_a'', EntryFn (\<lambda>c. 42))]\<rparr>
   \<and> dylib_count (fst (snd (ClangCompile_init example_world 5 (process_b, unit_a [])))) = 1"
    using t [of "[]", THEN conjunct2, THEN conjunct2, THEN conjunct2, THEN conjunct2,
        THEN conjunct2, THEN conjunct2, THEN conjunct2, THEN conjunct1, rule_format,
        where ?p0.0 = process_b and self = "unit_a []" and r = OK] j emit_a ra
    by (simp add: c1)
  have d: "jit_compiler (fst (snd (step example_world 5 (clang_invoke_init 0 ''make_counter'' 3 [])
                               (process_b, \<lambda>i. ClangInvoke_start))))
       = jit_compiler process_b"
    using t [of "[]", THEN conjunct2, THEN conjunct2, THEN conjunct2, THEN conjunct2,
        THEN conjunct2, THEN conjunct2, THEN conjunct2, THEN conjunct2, THEN conjunct1,
        rule_format, where r = "clang_invoke_init 0 ''make_counter'' 3 []"
        and ?p0.0 = process_b and ?ops0.0 = "\<lambda>i. ClangInvoke_start"]
    by simp
  show ?thesis
    using a b c d by simp
qed

text \<open>
  As the spec words it the claim fails: a compile request after the teardown does not
  find the compiler of the first request and constructs a second one in the same process.
\<close>

theorem session_recreated_after_teardown_counterexample:
  "map_option name
     (jit_compiler (fst (snd (ClangCompile_init example_world 5 (process_start, unit_a [])))))
     = Some ''<main-1>''
   \<and> fst (csoundModuleDestroy_clang_opcodes
            (fst (snd (ClangCompile_init example_world 5 (process_start, unit_a []))))) = OK
   \<and> fst (ClangCompile_init example_world 5
            (snd (csoundModuleDestroy_clang_opcodes
                    (fst (snd (ClangCompile_init example_world 5 (process_start, unit_a []))))),
             unit_b)) = Returned OK
   \<and> map_option name
       (jit_compiler (fst (snd (ClangCompile_init example_world 5
            (snd (csoundModuleDestroy_clang_opcodes
                    (fst (snd (ClangCompile_init example_world 5 (process_start, unit_a []))))),
             unit_b)))))
       = Some ''<main-2>''
   \<and> dylib_count (fst (snd (ClangCompile_init example_world 5
            (snd (csoundModuleDestroy_clang_opcodes
                    (fst (snd (ClangCompile_init example_world 5 (process_start, unit_a []))))),
             unit_b))))
       = 2"
  by code_simp

end
